theory Spec2Isabelle
  imports Complex_Main
begin

section \<open>Numeric rows and numpy broadcasting\<close>

text \<open>
  The library stores every value in a numpy array of float64 components. The model
  computes with real numbers: rounding is not represented, and where numpy would
  produce a value that is no number (\<open>0/0\<close>) the model says so with \<open>None\<close>.
  A two-dimensional array is the list of its rows.
\<close>

type_synonym row = "real list"
type_synonym array2 = "real list list"

datatype error = ValueError | TypeError | IndexError | KeyError | AttributeError

definition row_add :: "row \<Rightarrow> row \<Rightarrow> row" where
  "row_add a b = map2 (+) a b"

definition row_scale :: "real \<Rightarrow> row \<Rightarrow> row" where
  "row_scale s a = map ((*) s) a"

definition row_dot :: "row \<Rightarrow> row \<Rightarrow> real" where
  "row_dot a b = sum_list (map2 (*) a b)"

text \<open>\<open>np.cross\<close> on two rows of three components.\<close>

definition np_cross :: "row \<Rightarrow> row \<Rightarrow> row" where
  "np_cross a b =
     [a ! 1 * b ! 2 - a ! 2 * b ! 1,
      a ! 2 * b ! 0 - a ! 0 * b ! 2,
      a ! 0 * b ! 1 - a ! 1 * b ! 0]"

text \<open>
  numpy pairs the rows of two batches when the batch lengths agree, and repeats the
  single row of a batch of length one; any other pair of lengths raises.
\<close>

definition broadcast_rows :: "'a list \<Rightarrow> 'b list \<Rightarrow> error + ('a \<times> 'b) list" where
  "broadcast_rows p q =
     (if length p = length q then Inr (zip p q)
      else if length p = 1 then Inr (map (\<lambda>y. (hd p, y)) q)
      else if length q = 1 then Inr (map (\<lambda>x. (x, hd q)) p)
      else Inl ValueError)"

text \<open>
  Modelled from the spec: \<open>arrayCompat\<close> of \<open>utils\<close> is not part of the sources. The
  spec describes it as normalising its arguments into the batched representation
  before a kernel runs; on a value that is already a batch it changes nothing.
\<close>

definition arrayCompat :: "array2 \<Rightarrow> array2" where
  "arrayCompat a = a"

section \<open>Quaternion composition\<close>

text \<open>
  One row of \<open>QuaternionArray.quatquatProduct\<close>: components \<open>[:3]\<close> are the vector
  part, component \<open>3\<close> the scalar part.
\<close>

definition quat_row_product :: "row \<Rightarrow> row \<Rightarrow> row" where
  "quat_row_product p q =
     row_add (row_add (row_scale (p ! 3) (take 3 q)) (row_scale (q ! 3) (take 3 p)))
             (np_cross (take 3 p) (take 3 q))
     @ [p ! 3 * q ! 3 - sum_list (map2 (*) (take 3 p) (take 3 q))]"

text \<open>
  \<open>prod\<close> is allocated with \<open>max(len(p), len(q))\<close> rows; the broadcast products are
  then assigned into it, which raises when they have another number of rows.
\<close>

definition quatquatProduct :: "array2 \<Rightarrow> array2 \<Rightarrow> error + array2" where
  "quatquatProduct p0 q0 =
     (let p = arrayCompat p0; q = arrayCompat q0 in
      case broadcast_rows p q of
        Inl e \<Rightarrow> Inl e
      | Inr pq \<Rightarrow>
          if length pq \<noteq> max (length p) (length q) then Inl ValueError
          else Inr (map (\<lambda>(a, b). quat_row_product a b) pq))"

definition fromComponents :: "real \<Rightarrow> real \<Rightarrow> real \<Rightarrow> real \<Rightarrow> row" where
  "fromComponents x y z w = [x, y, z, w]"

text \<open>\<open>Quaternion.__mul__\<close> with a \<open>Quaternion\<close> on the right.\<close>

definition Quaternion_mul :: "row \<Rightarrow> row \<Rightarrow> error + row" where
  "Quaternion_mul self other =
     (case quatquatProduct [self] [other] of
        Inl e \<Rightarrow> Inl e
      | Inr r \<Rightarrow> (case r of [] \<Rightarrow> Inl IndexError | x # _ \<Rightarrow> Inr x))"

section \<open>Quaternion constructors\<close>

definition deg2rad :: "real \<Rightarrow> real" where
  "deg2rad a = a * (pi / 180)"

text \<open>\<open>QuaternionArray.zeros(length)\<close>: \<open>length\<close> rows of four zeros.\<close>

definition QuaternionArray_zeros :: "nat \<Rightarrow> array2" where
  "QuaternionArray_zeros n = replicate n [0, 0, 0, 0]"

text \<open>
  \<open>"xyz".index(s)\<close> of Python: the lowest position at which \<open>s\<close> occurs in the
  string, \<open>ValueError\<close> when it does not occur. \<open>lower\<close> maps the capital letters
  of ASCII to the small ones.
\<close>

fun str_index :: "string \<Rightarrow> string \<Rightarrow> error + nat" where
  "str_index [] sub = (if sub = [] then Inr 0 else Inl ValueError)"
| "str_index (c # s) sub =
     (if take (length sub) (c # s) = sub then Inr 0
      else (case str_index s sub of Inl e \<Rightarrow> Inl e | Inr i \<Rightarrow> Inr (Suc i)))"

definition lower_char :: "char \<Rightarrow> char" where
  "lower_char c =
     (if 65 \<le> (of_char c :: nat) \<and> (of_char c :: nat) \<le> 90
      then char_of (of_char c + 32 :: nat) else c)"

definition lower :: "string \<Rightarrow> string" where
  "lower s = map lower_char s"

text \<open>
  \<open>QuaternionArray.alignedRotations(axisName, angles, degrees)\<close>: column \<open>3\<close> is set
  first, then the column of the named axis.
\<close>

definition alignedRotations :: "string \<Rightarrow> real list \<Rightarrow> bool \<Rightarrow> error + array2" where
  "alignedRotations axisName angles0 degrees =
     (let angles = (if degrees then map deg2rad angles0 else angles0) in
      case str_index ''xyz'' (lower axisName) of
        Inl e \<Rightarrow> Inl e
      | Inr ind \<Rightarrow>
          Inr (map (\<lambda>(r, a). (r[3 := cos (a / 2)])[ind := sin (a / 2)])
                 (zip (QuaternionArray_zeros (length angles)) angles)))"

text \<open>
  \<open>QuaternionArray.axisAngle(axes, angles, degrees)\<close>. One row is
  \<open>axis * sin(angle)\<close> followed by \<open>cos(angle)\<close>. \<open>ret\<close> has \<open>len(axes)\<close> rows;
  \<open>axes * sins[:, None]\<close> is broadcast and then assigned into the first three columns,
  and \<open>cos(angles)\<close> into the fourth. Both assignments succeed exactly when there are
  as many angles as axes or a single angle, and the axes have three components, or
  one, which numpy repeats over the three columns; the function \<open>f\<close> makes one row,
  so that the same shape rule serves angles that are numbers and angles that may be
  NaN.
\<close>

definition axisAngle_row :: "row \<Rightarrow> real \<Rightarrow> row" where
  "axisAngle_row axis angle = row_scale (sin angle) axis @ [cos angle]"

definition axes_columns :: "array2 \<Rightarrow> error + array2" where
  "axes_columns axes =
     (if list_all (\<lambda>a. length a = 3) axes then Inr axes
      else if list_all (\<lambda>a. length a = 1) axes then Inr (map (\<lambda>a. replicate 3 (hd a)) axes)
      else Inl ValueError)"

definition axisAngle_rows :: "(row \<Rightarrow> 'a \<Rightarrow> 'r) \<Rightarrow> array2 \<Rightarrow> 'a list \<Rightarrow> error + 'r list" where
  "axisAngle_rows f axes0 angles =
     (case axes_columns axes0 of
        Inl e \<Rightarrow> Inl e
      | Inr axes \<Rightarrow>
          (case broadcast_rows axes angles of
             Inl e \<Rightarrow> Inl e
           | Inr xs \<Rightarrow>
               if length xs = length axes \<and> (length angles = length axes \<or> length angles = 1)
               then Inr (map (\<lambda>(a, s). f a s) xs)
               else Inl ValueError))"

definition axisAngle :: "array2 \<Rightarrow> real list \<Rightarrow> bool \<Rightarrow> error + array2" where
  "axisAngle axes0 angles0 degrees =
     (let axes = arrayCompat axes0;
          angles = (if degrees then map deg2rad angles0 else angles0)
      in axisAngle_rows axisAngle_row axes angles)"

section \<open>Rotating vectors by quaternions\<close>

text \<open>
  \<open>uv *= 2 * q[:, 3]\<close> multiplies the array \<open>uv\<close>, of rows of three components, by a
  one-dimensional array: numpy aligns that array with the last axis of \<open>uv\<close>, so it
  must hold one value or three.
\<close>

definition scale_last_axis :: "array2 \<Rightarrow> real list \<Rightarrow> error + array2" where
  "scale_last_axis uv ws =
     (if length ws = 1 then Inr (map (row_scale (hd ws)) uv)
      else if length ws = 3 then Inr (map (\<lambda>r. map2 (*) r ws) uv)
      else Inl ValueError)"

text \<open>\<open>QuaternionArray.vectorquatproduct(v, q)\<close>.\<close>

definition vectorquatproduct :: "array2 \<Rightarrow> array2 \<Rightarrow> error + array2" where
  "vectorquatproduct v0 q0 =
     (let v = arrayCompat v0; q = arrayCompat q0; qvec = map (take 3) q in
      case broadcast_rows qvec v of
        Inl e \<Rightarrow> Inl e
      | Inr qv \<Rightarrow>
          let uv = map (\<lambda>(a, b). np_cross a b) qv in
          (case broadcast_rows qvec uv of
             Inl e \<Rightarrow> Inl e
           | Inr quv \<Rightarrow>
               let uuv = map (\<lambda>(a, b). np_cross a b) quv in
               (case scale_last_axis uv (map (\<lambda>r. 2 * r ! 3) q) of
                  Inl e \<Rightarrow> Inl e
                | Inr uv2 \<Rightarrow>
                    let uuv2 = map (row_scale 2) uuv in
                    (case broadcast_rows v uv2 of
                       Inl e \<Rightarrow> Inl e
                     | Inr a \<Rightarrow>
                         (case broadcast_rows (map (\<lambda>(x, y). row_add x y) a) uuv2 of
                            Inl e \<Rightarrow> Inl e
                          | Inr b \<Rightarrow> Inr (map (\<lambda>(x, y). row_add x y) b))))))"

section \<open>Vectors: resizing and multiplication\<close>

text \<open>
  The classes \<open>Vector2\<close>, \<open>Vector3\<close>, \<open>Vector4\<close> and their array classes are made at
  import time and registered by size; a class is identified here by its \<open>N\<close>. A
  vector of class \<open>N\<close> is a row of \<open>N\<close> components, a vector array a list of such rows.
  Resizing moves components and never computes with them, so it is written for
  components of any type: numbers, or numbers and NaN.
\<close>

definition VECTOR_BY_SIZE :: "nat \<Rightarrow> nat option" where
  "VECTOR_BY_SIZE n = (if n = 2 \<or> n = 3 \<or> n = 4 then Some n else None)"

definition VECTOR_ARRAY_BY_SIZE :: "nat \<Rightarrow> nat option" where
  "VECTOR_ARRAY_BY_SIZE n = (if n = 2 \<or> n = 3 \<or> n = 4 then Some n else None)"

definition VectorN_full :: "nat \<Rightarrow> 'a \<Rightarrow> 'a list" where
  "VectorN_full N v = replicate N v"

definition VectorNArray_full :: "nat \<Rightarrow> nat \<Rightarrow> 'a \<Rightarrow> 'a list list" where
  "VectorNArray_full N len v = replicate len (replicate N v)"

text \<open>
  \<open>VectorN.asVectorSize(n, pad)\<close>: a copy when \<open>n\<close> is the own size; otherwise the
  class registered for \<open>n\<close> (a \<open>KeyError\<close> when there is none) filled with \<open>pad\<close>, its
  first \<open>min(n, N)\<close> components overwritten by those of \<open>self\<close>.
\<close>

definition VectorN_asVectorSize :: "nat \<Rightarrow> 'a list \<Rightarrow> nat \<Rightarrow> 'a \<Rightarrow> error + 'a list" where
  "VectorN_asVectorSize N self n pad =
     (if n = N then Inr self
      else case VECTOR_BY_SIZE n of
        None \<Rightarrow> Inl KeyError
      | Some typ \<Rightarrow>
          let ret = VectorN_full typ pad; m = min n N
          in Inr (take m self @ drop m ret))"

definition VectorNArray_asVectorSize ::
  "nat \<Rightarrow> 'a list list \<Rightarrow> nat \<Rightarrow> 'a \<Rightarrow> error + 'a list list" where
  "VectorNArray_asVectorSize N self n pad =
     (if n = N then Inr self
      else case VECTOR_ARRAY_BY_SIZE n of
        None \<Rightarrow> Inl KeyError
      | Some typ \<Rightarrow>
          let ret = VectorNArray_full typ (length self) pad; m = min n N
          in Inr (map (\<lambda>(r, s). take m s @ drop m r) (zip ret self)))"

text \<open>The default of the parameter \<open>pad\<close>.\<close>

definition default_pad :: real where
  "default_pad = 1"

text \<open>
  The operands of \<open>*\<close> and its results. Matrices and Euler angles live in modules
  that are not part of the sources; they are not among the operands here.
\<close>

datatype val =
    Scalar real
  | NdArray "real list"
  | Vector nat row
  | VectorArray nat array2
  | Quaternion row
  | QuaternionArray array2

text \<open>
  \<open>VectorN.__mul__(self, other)\<close> for a vector of class \<open>N\<close>, with the branches in the
  order of the source: the dot product with a vector or with every row of a vector
  array, and the rotation by a quaternion (\<open>VectorN_mul_Quaternion\<close>) or by a
  quaternion array. \<open>self.asArray()\<close> is the one-row array \<open>[self]\<close>. The last case
  of the source is numpy's own multiplication, component by component: with a number,
  or with a plain array of \<open>N\<close> components or of one.
\<close>

definition VectorN_mul_Quaternion :: "nat \<Rightarrow> row \<Rightarrow> row \<Rightarrow> error + row" where
  "VectorN_mul_Quaternion N self q =
     (case VectorN_asVectorSize N self 3 default_pad of
        Inl e \<Rightarrow> Inl e
      | Inr ex \<Rightarrow>
          (case vectorquatproduct [ex] [q] of
             Inl e \<Rightarrow> Inl e
           | Inr ret \<Rightarrow>
               (case ret of
                  [] \<Rightarrow> Inl IndexError
                | r0 # _ \<Rightarrow> VectorN_asVectorSize 3 r0 N default_pad)))"

definition VectorN_mul :: "nat \<Rightarrow> row \<Rightarrow> val \<Rightarrow> error + val" where
  "VectorN_mul N self other =
     (case other of
        Vector M ov \<Rightarrow>
          if N \<noteq> M then Inl TypeError else Inr (Scalar (row_dot self ov))
      | VectorArray M oa \<Rightarrow>
          if N \<noteq> M then Inl TypeError else Inr (NdArray (map (row_dot self) oa))
      | Quaternion q \<Rightarrow>
          (case VectorN_mul_Quaternion N self q of
             Inl e \<Rightarrow> Inl e
           | Inr r \<Rightarrow> Inr (Vector N r))
      | QuaternionArray qa \<Rightarrow>
          (case VectorN_asVectorSize N self 3 default_pad of
             Inl e \<Rightarrow> Inl e
           | Inr ex \<Rightarrow>
               (case vectorquatproduct [ex] qa of
                  Inl e \<Rightarrow> Inl e
                | Inr ret \<Rightarrow>
                    (case VectorNArray_asVectorSize 3 ret N default_pad of
                       Inl e \<Rightarrow> Inl e
                     | Inr r \<Rightarrow> Inr (VectorArray N r))))
      | Scalar s \<Rightarrow> Inr (Vector N (row_scale s self))
      | NdArray xs \<Rightarrow>
          if length xs = N then Inr (Vector N (map2 (*) self xs))
          else if length xs = 1 then Inr (Vector N (row_scale (hd xs) self))
          else Inl ValueError)"

section \<open>Spherical interpolation\<close>

text \<open>
  \<open>QuaternionArray.slerp(other, tVal)\<close>. For one pair of rows: the cosine is the dot
  product, set to one when its absolute value is at least one; the two ratios divide by
  \<open>sinHalfAngle\<close>. When that is zero both numerators are zero as well, and numpy's
  \<open>0/0\<close> is NaN: the ratios are \<open>None\<close>. The arithmetic here is exact; float64
  rounds every step, so for a pair that is not clamped the ratios of the program agree
  with these only up to rounding.
\<close>

definition slerp_ratios :: "row \<Rightarrow> row \<Rightarrow> real \<Rightarrow> (real \<times> real) option" where
  "slerp_ratios p q tVal =
     (let c0 = row_dot p q;
          cosHalfAngle = (if \<bar>c0\<bar> \<ge> 1 then 1 else c0);
          halfAngle = arccos cosHalfAngle;
          sinHalfAngle = sqrt (1 - cosHalfAngle * cosHalfAngle)
      in if sinHalfAngle = 0 then None
         else Some (sin ((1 - tVal) * halfAngle) / sinHalfAngle,
                    sin (tVal * halfAngle) / sinHalfAngle))"

text \<open>Products and sums with a component that may be NaN (\<open>None\<close>).\<close>

definition nan_mul :: "real \<Rightarrow> real option \<Rightarrow> real option" where
  "nan_mul x r = (case r of None \<Rightarrow> None | Some y \<Rightarrow> Some (x * y))"

definition nan_add :: "real option \<Rightarrow> real option \<Rightarrow> real option" where
  "nan_add a b =
     (case a of None \<Rightarrow> None | Some x \<Rightarrow> (case b of None \<Rightarrow> None | Some y \<Rightarrow> Some (x + y)))"

text \<open>
  \<open>self * ratioA\<close> is numpy's own product of the array of quaternions with the array
  of ratios, one ratio per pair of rows. numpy aligns the ratios with the last axis:
  there must be one ratio, which then weights every component, or four.
\<close>

definition weight_last_axis :: "array2 \<Rightarrow> real option list \<Rightarrow> error + real option list list" where
  "weight_last_axis rows ws =
     (if length ws = 1 then Inr (map (map (\<lambda>x. nan_mul x (hd ws))) rows)
      else if length ws = 4 then Inr (map (\<lambda>r. map2 nan_mul r ws) rows)
      else Inl ValueError)"

definition slerp :: "array2 \<Rightarrow> array2 \<Rightarrow> real \<Rightarrow> error + real option list list" where
  "slerp self other0 tVal =
     (let other = arrayCompat other0 in
      case broadcast_rows self other of
        Inl e \<Rightarrow> Inl e
      | Inr pq \<Rightarrow>
          let ratios = map (\<lambda>(p, q). slerp_ratios p q tVal) pq;
              ratioA = map (map_option fst) ratios;
              ratioB = map (map_option snd) ratios
          in (case weight_last_axis self ratioA of
                Inl e \<Rightarrow> Inl e
              | Inr a \<Rightarrow>
                  (case weight_last_axis other ratioB of
                     Inl e \<Rightarrow> Inl e
                   | Inr b \<Rightarrow>
                       (case broadcast_rows a b of
                          Inl e \<Rightarrow> Inl e
                        | Inr ab \<Rightarrow> Inr (map (\<lambda>(x, y). map2 nan_add x y) ab)))))"

section \<open>Constructors of the scalar classes\<close>

text \<open>
  An array as numpy holds it: the shape and the elements in row-major order. The
  argument of a constructor is taken as the array \<open>np.asarray(input_array, dtype=float)\<close>
  makes of it, or \<open>None\<close> when it is left out.
\<close>

record ndarray =
  shape :: "nat list"
  elems :: "real list"

definition ndarray_size :: "ndarray \<Rightarrow> nat" where
  "ndarray_size a = prod_list (shape a)"

definition np_zeros :: "nat \<Rightarrow> ndarray" where
  "np_zeros n = \<lparr>shape = [n], elems = replicate n 0\<rparr>"

definition Quaternion_new :: "ndarray option \<Rightarrow> error + ndarray" where
  "Quaternion_new input_array =
     (let ary = (case input_array of
                   None \<Rightarrow> (np_zeros 4)\<lparr>elems := (elems (np_zeros 4))[3 := 1]\<rparr>
                 | Some a \<Rightarrow> a)
      in if ndarray_size ary \<noteq> 4 then Inl ValueError else Inr ary)"

definition VectorN_new :: "nat \<Rightarrow> ndarray option \<Rightarrow> error + ndarray" where
  "VectorN_new N input_array =
     (let ary = (case input_array of None \<Rightarrow> np_zeros N | Some a \<Rightarrow> a)
      in if ndarray_size ary \<noteq> N then Inl ValueError else Inr ary)"

section \<open>Indexing and the type of the result\<close>

text \<open>
  An index is one item or a tuple of items: an integer, a slice \<open>start:stop\<close>,
  \<open>None\<close> (a new axis) or \<open>...\<close>. \<open>index_shape\<close> is the shape numpy's own
  \<open>__getitem__\<close> gives the result, or the \<open>IndexError\<close> it raises.
\<close>

datatype index_item = Index int | Slice "int option" "int option" | NewAxis | Ellipsis

datatype index = Item index_item | Tuple "index_item list"

definition slice_bound :: "int option \<Rightarrow> int \<Rightarrow> int \<Rightarrow> int" where
  "slice_bound b dflt d =
     (case b of None \<Rightarrow> dflt | Some i \<Rightarrow> if i < 0 then max (i + d) 0 else min i d)"

definition slice_len :: "int option \<Rightarrow> int option \<Rightarrow> nat \<Rightarrow> nat" where
  "slice_len s e d = nat (slice_bound e (int d) (int d) - slice_bound s 0 (int d))"

fun consumed :: "index_item \<Rightarrow> nat" where
  "consumed (Index i) = 1"
| "consumed (Slice s e) = 1"
| "consumed NewAxis = 0"
| "consumed Ellipsis = 0"

fun index_shape :: "index_item list \<Rightarrow> nat list \<Rightarrow> error + nat list" where
  "index_shape [] dims = Inr dims"
| "index_shape (NewAxis # is) dims =
     (case index_shape is dims of Inl e \<Rightarrow> Inl e | Inr r \<Rightarrow> Inr (1 # r))"
| "index_shape (Ellipsis # is) dims =
     (let k = sum_list (map consumed is) in
      if Ellipsis \<in> set is \<or> length dims < k then Inl IndexError
      else (case index_shape is (drop (length dims - k) dims) of
              Inl e \<Rightarrow> Inl e
            | Inr r \<Rightarrow> Inr (take (length dims - k) dims @ r)))"
| "index_shape (Index i # is) [] = Inl IndexError"
| "index_shape (Index i # is) (d # dims) =
     (if - int d \<le> i \<and> i < int d then index_shape is dims else Inl IndexError)"
| "index_shape (Slice s e # is) [] = Inl IndexError"
| "index_shape (Slice s e # is) (d # dims) =
     (case index_shape is dims of Inl e \<Rightarrow> Inl e | Inr r \<Rightarrow> Inr (slice_len s e d # r))"

definition index_items :: "index \<Rightarrow> index_item list" where
  "index_items idx = (case idx of Item i \<Rightarrow> [i] | Tuple is \<Rightarrow> is)"

text \<open>
  The classes a result can be viewed as. \<open>getReturnType\<close> gives \<open>None\<close> for the empty
  shape: \<open>__getitem__\<close> then returns the number as numpy gave it.
\<close>

datatype rtype = NdArrayT | QuaternionT | QuaternionArrayT | VectorT nat | VectorArrayT nat

definition QuaternionArray_getReturnType :: "nat list \<Rightarrow> rtype option" where
  "QuaternionArray_getReturnType shp =
     (if shp = [] then None
      else if length shp = 2 then (if shp ! 1 = 4 then Some QuaternionArrayT else Some NdArrayT)
      else if length shp = 1 then (if shp ! 0 = 4 then Some QuaternionT else Some NdArrayT)
      else Some NdArrayT)"

definition VectorNArray_getReturnType :: "nat \<Rightarrow> nat list \<Rightarrow> rtype option" where
  "VectorNArray_getReturnType N shp =
     (if shp = [] then None
      else if length shp = 2 then (if shp ! 1 = N then Some (VectorArrayT N) else Some NdArrayT)
      else if length shp = 1 then (if shp ! 0 = N then Some (VectorT N) else Some NdArrayT)
      else Some NdArrayT)"

text \<open>
  \<open>QuaternionArray.__getitem__(idx)\<close> on an array of the given shape: the class and
  the shape of what it returns. A tuple whose second item is not the slice \<open>:\<close> asks
  for columns and gets a plain array, viewed as \<open>np.ndarray\<close>; the view of a single
  number is that number. Everything else goes by the shape.
\<close>

definition QuaternionArray_getitem :: "nat list \<Rightarrow> index \<Rightarrow> error + (rtype option \<times> nat list)" where
  "QuaternionArray_getitem self_shape idx =
     (case index_shape (index_items idx) self_shape of
        Inl e \<Rightarrow> Inl e
      | Inr ret \<Rightarrow>
          (case idx of
             Tuple is \<Rightarrow>
               if length is > 1 \<and> is ! 1 \<noteq> Slice None None
               then Inr (if ret = [] then None else Some NdArrayT, ret)
               else Inr (QuaternionArray_getReturnType ret, ret)
           | Item i \<Rightarrow> Inr (QuaternionArray_getReturnType ret, ret)))"

text \<open>\<open>VectorNArray.__getitem__(idx)\<close>: by the shape alone.\<close>

definition VectorNArray_getitem :: "nat \<Rightarrow> nat list \<Rightarrow> index \<Rightarrow> error + (rtype option \<times> nat list)" where
  "VectorNArray_getitem N self_shape idx =
     (case index_shape (index_items idx) self_shape of
        Inl e \<Rightarrow> Inl e
      | Inr ret \<Rightarrow> Inr (VectorNArray_getReturnType N ret, ret))"

section \<open>Polylines: adjacent lengths and parallel transport\<close>

definition row_sub :: "row \<Rightarrow> row \<Rightarrow> row" where
  "row_sub a b = map2 (-) a b"

text \<open>\<open>self[1:] - self[:-1]\<close>: the vectors from every point to the next.\<close>

definition adjacent_differences :: "array2 \<Rightarrow> array2" where
  "adjacent_differences self = map (\<lambda>(a, b). row_sub a b) (zip (tl self) (butlast self))"

definition VectorNArray_lengthSquared :: "array2 \<Rightarrow> real list" where
  "VectorNArray_lengthSquared self = map (\<lambda>r. row_dot r r) self"

definition VectorNArray_length :: "array2 \<Rightarrow> real list" where
  "VectorNArray_length self = map sqrt (VectorNArray_lengthSquared self)"

text \<open>
  \<open>VectorNArray.normal()\<close> divides every row by its length. A row of length zero has
  only zero components, and numpy's \<open>0/0\<close> is NaN (with a warning, no exception): the
  row is \<open>None\<close>.
\<close>

definition VectorNArray_normal :: "array2 \<Rightarrow> row option list" where
  "VectorNArray_normal self =
     map (\<lambda>(r, l). if l = 0 then None else Some (map (\<lambda>x. x / l) r))
       (zip self (VectorNArray_length self))"

text \<open>\<open>VectorNArray.adjacentLengths()\<close>.\<close>

definition adjacentLengths :: "array2 \<Rightarrow> error + real list" where
  "adjacentLengths self =
     (if length self < 2 then Inl ValueError
      else Inr (VectorNArray_length (adjacent_differences self)))"

text \<open>\<open>VectorNArray.cross(other)\<close>, row by row.\<close>

definition VectorNArray_cross :: "array2 \<Rightarrow> array2 \<Rightarrow> error + array2" where
  "VectorNArray_cross self other0 =
     (let other = arrayCompat other0 in
      case broadcast_rows self other of
        Inl e \<Rightarrow> Inl e
      | Inr xs \<Rightarrow> Inr (map (\<lambda>(a, b). np_cross a b) xs))"

text \<open>
  \<open>VectorNArray.angle(other)\<close>: the arc cosine of the row-wise dot products of the
  two arrays of unit vectors. The angle is NaN where a row is, and where the dot
  product is outside the domain of the arc cosine.
\<close>

definition VectorNArray_angle :: "array2 \<Rightarrow> array2 \<Rightarrow> error + real option list" where
  "VectorNArray_angle self other0 =
     (let other = arrayCompat other0 in
      case broadcast_rows (VectorNArray_normal self) (VectorNArray_normal other) of
        Inl e \<Rightarrow> Inl e
      | Inr xs \<Rightarrow>
          Inr (map (\<lambda>(a, b).
                 case a of
                   None \<Rightarrow> None
                 | Some x \<Rightarrow>
                     (case b of
                        None \<Rightarrow> None
                      | Some y \<Rightarrow>
                          if \<bar>row_dot x y\<bar> \<le> 1 then Some (arccos (row_dot x y)) else None))
               xs))"

text \<open>
  \<open>out[i] * quats[i]\<close>, the product of a \<open>Vector3\<close> with a \<open>Quaternion\<close>; a NaN
  operand makes every component of the product NaN.
\<close>

definition transport_rotate :: "row option \<Rightarrow> row option \<Rightarrow> error + row option" where
  "transport_rotate v q =
     (case v of
        None \<Rightarrow> Inr None
      | Some x \<Rightarrow>
          (case q of
             None \<Rightarrow> Inr None
           | Some y \<Rightarrow>
               (case VectorN_mul_Quaternion 3 x y of Inl e \<Rightarrow> Inl e | Inr r \<Rightarrow> Inr (Some r))))"

text \<open>
  The loop \<open>for i in range(len(self) - 1): out[i + 1] = out[i] * quats[i]\<close>, over
  the values \<open>i\<close> still to come. Reading \<open>out[i]\<close> or \<open>quats[i]\<close> past the end
  raises \<open>IndexError\<close>, as does writing \<open>out[i + 1]\<close>.
\<close>

fun transport_loop :: "row option list \<Rightarrow> nat list \<Rightarrow> row option list \<Rightarrow> error + row option list" where
  "transport_loop quats [] out = Inr out"
| "transport_loop quats (i # is) out =
     (if length out \<le> i then Inl IndexError
      else if length quats \<le> i then Inl IndexError
      else (case transport_rotate (out ! i) (quats ! i) of
              Inl e \<Rightarrow> Inl e
            | Inr v \<Rightarrow>
                if length out \<le> Suc i then Inl IndexError
                else transport_loop quats is (out[Suc i := v])))"

text \<open>
  \<open>VectorNArray.parallelTransport(upv, inverse)\<close> on an array of points of three
  components (\<open>invert\<close> stands for the parameter \<open>inverse\<close>). The first argument is what the attribute \<open>zeros\<close> of the class
  \<open>VECTOR_ARRAY_BY_SIZE[3]\<close> is: a function from the number of rows to an array, or
  nothing, in which case looking it up raises \<open>AttributeError\<close>. The quaternions come
  from \<open>QuaternionArray.axisAngle(binorms, angles)\<close>, here with angles that may be
  NaN: such a quaternion is NaN in every component.
\<close>

definition parallelTransport_with ::
  "(nat \<Rightarrow> array2) option \<Rightarrow> array2 \<Rightarrow> row \<Rightarrow> bool \<Rightarrow> error + row option list" where
  "parallelTransport_with zeros self upv invert =
     (let adjVecs = adjacent_differences self in
      case VectorNArray_cross (tl adjVecs) (butlast adjVecs) of
        Inl e \<Rightarrow> Inl e
      | Inr binorms \<Rightarrow>
          (case VectorNArray_angle (tl adjVecs) (butlast adjVecs) of
             Inl e \<Rightarrow> Inl e
           | Inr angles0 \<Rightarrow>
               let angles = (if invert then map (map_option uminus) angles0 else angles0) in
               (case axisAngle_rows (\<lambda>b a. map_option (axisAngle_row b) a)
                       (arrayCompat binorms) angles of
                  Inl e \<Rightarrow> Inl e
                | Inr quats \<Rightarrow>
                    (case zeros of
                       None \<Rightarrow> Inl AttributeError
                     | Some z \<Rightarrow>
                         let out = map Some (z (length self)) in
                         if out = [] then Inl IndexError
                         else
                           (case transport_loop quats [0..<length self - 1] (out[0 := Some upv]) of
                              Inl e \<Rightarrow> Inl e
                            | Inr out2 \<Rightarrow>
                                if length out2 < 2 then Inl IndexError
                                else Inr (out2[length out2 - 1 := out2 ! (length out2 - 2)]))))))"

text \<open>
  The class \<open>VectorNArray\<close> defines the constructors \<open>ones\<close> and \<open>full\<close> and no
  \<open>zeros\<close>, the classes made from it add only \<open>N\<close>, \<open>itemType\<close> and \<open>arrayType\<close>,
  and numpy's \<open>ndarray\<close> has no attribute of that name either.
\<close>

definition Vector3Array_zeros :: "(nat \<Rightarrow> array2) option" where
  "Vector3Array_zeros = None"

definition parallelTransport :: "array2 \<Rightarrow> row \<Rightarrow> bool \<Rightarrow> error + row option list" where
  "parallelTransport self upv invert = parallelTransport_with Vector3Array_zeros self upv invert"

text \<open>
  A constructor \<open>zeros\<close> for vector arrays of size three written as
  \<open>QuaternionArray.zeros\<close> is written: what the call in \<open>parallelTransport\<close> asks for.
\<close>

definition zeros_as_QuaternionArray :: "nat \<Rightarrow> array2" where
  "zeros_as_QuaternionArray n = replicate n [0, 0, 0]"

section \<open>Arrays as objects: the operations that look like mutation\<close>

text \<open>
  Whether an operation changes its receiver or makes a new value is a matter of
  identity, so here the values are objects: the store is the list of the objects made
  so far, and a reference is a position in it. An object has its class and its rows
  (one row for a vector or a quaternion); a component is a number or NaN (\<open>None\<close>).
  A new object is put at the end of the store. A call returns an error, \<open>None\<close>, or
  a reference.
\<close>

datatype cls = VectorC nat | VectorArrayC nat | QuaternionC | QuaternionArrayC

record obj =
  obj_class :: cls
  obj_rows :: "real option list list"

type_synonym ref = nat
type_synonym store = "obj list"

fun components :: "cls \<Rightarrow> nat" where
  "components (VectorC N) = N"
| "components (VectorArrayC N) = N"
| "components QuaternionC = 4"
| "components QuaternionArrayC = 4"

fun is_array :: "cls \<Rightarrow> bool" where
  "is_array (VectorC N) = False"
| "is_array (VectorArrayC N) = True"
| "is_array QuaternionC = False"
| "is_array QuaternionArrayC = True"

text \<open>
  The calls: \<open>normal()\<close>, \<open>normalize()\<close>, \<open>asVectorSize(n, pad)\<close>,
  \<open>appended(value)\<close> with a list of numbers, \<open>extended(value)\<close> with an object,
  \<open>append(v)\<close> with a list of numbers and \<open>extend(v)\<close> with a list of such lists.
  \<open>has_method\<close> says which class defines which: \<open>VectorN\<close> has \<open>asVectorSize\<close>;
  \<open>VectorNArray\<close> has \<open>normal\<close>, \<open>normalize\<close>, \<open>asVectorSize\<close>, \<open>append\<close> and
  \<open>extend\<close>; \<open>Quaternion\<close> has \<open>normal\<close> and \<open>normalize\<close>; \<open>QuaternionArray\<close>
  has \<open>normal\<close>, \<open>normalize\<close>, \<open>appended\<close> and \<open>extended\<close>. numpy's \<open>ndarray\<close>
  has none of these names, so any other call raises \<open>AttributeError\<close>.
\<close>

datatype call =
    Normal
  | Normalize
  | AsVectorSize nat real
  | Appended "real option list"
  | Extended ref
  | Append "real option list"
  | Extend "real option list list"

fun has_method :: "cls \<Rightarrow> call \<Rightarrow> bool" where
  "has_method (VectorC N) (AsVectorSize n pad) = True"
| "has_method (VectorC N) c = False"
| "has_method (VectorArrayC N) (Appended v) = False"
| "has_method (VectorArrayC N) (Extended v) = False"
| "has_method (VectorArrayC N) c = True"
| "has_method QuaternionC Normal = True"
| "has_method QuaternionC Normalize = True"
| "has_method QuaternionC c = False"
| "has_method QuaternionArrayC Normal = True"
| "has_method QuaternionArrayC Normalize = True"
| "has_method QuaternionArrayC (Appended v) = True"
| "has_method QuaternionArrayC (Extended v) = True"
| "has_method QuaternionArrayC c = False"

definition new_object :: "store \<Rightarrow> obj \<Rightarrow> (error + ref option) \<times> store" where
  "new_object h x = (Inr (Some (length h)), h @ [x])"

text \<open>
  \<open>self / self.length()[..., None]\<close>, the value of \<open>normal()\<close> and what
  \<open>normalize()\<close> stores: a row with a NaN has the length NaN, and is NaN throughout;
  so is a row of length zero.
\<close>

definition normal_contents :: "real option list list \<Rightarrow> real option list list" where
  "normal_contents rows =
     map (\<lambda>r. case those r of
                 None \<Rightarrow> map (\<lambda>x. None) r
               | Some xs \<Rightarrow>
                   (case VectorNArray_normal [xs] of
                      [Some y] \<Rightarrow> map Some y
                    | _ \<Rightarrow> map (\<lambda>x. None) r))
       rows"

definition call_normal :: "store \<Rightarrow> ref \<Rightarrow> (error + ref option) \<times> store" where
  "call_normal h self =
     new_object h ((h ! self)\<lparr>obj_rows := normal_contents (obj_rows (h ! self))\<rparr>)"

definition call_normalize :: "store \<Rightarrow> ref \<Rightarrow> (error + ref option) \<times> store" where
  "call_normalize h self =
     (Inr None, h[self := (h ! self)\<lparr>obj_rows := normal_contents (obj_rows (h ! self))\<rparr>])"

text \<open>
  \<open>asVectorSize(n, pad)\<close> on an object: the copy, or the new vector or array, is a
  new object of the class registered for \<open>n\<close>.
\<close>

definition call_asVectorSize :: "store \<Rightarrow> ref \<Rightarrow> nat \<Rightarrow> real \<Rightarrow> (error + ref option) \<times> store" where
  "call_asVectorSize h self n pad =
     (case obj_class (h ! self) of
        VectorC N \<Rightarrow>
          (case VectorN_asVectorSize N (hd (obj_rows (h ! self))) n (Some pad) of
             Inl e \<Rightarrow> (Inl e, h)
           | Inr r \<Rightarrow> new_object h \<lparr>obj_class = VectorC n, obj_rows = [r]\<rparr>)
      | VectorArrayC N \<Rightarrow>
          (case VectorNArray_asVectorSize N (obj_rows (h ! self)) n (Some pad) of
             Inl e \<Rightarrow> (Inl e, h)
           | Inr rs \<Rightarrow> new_object h \<lparr>obj_class = VectorArrayC n, obj_rows = rs\<rparr>)
      | QuaternionC \<Rightarrow> (Inl AttributeError, h)
      | QuaternionArrayC \<Rightarrow> (Inl AttributeError, h))"

text \<open>
  \<open>np.resize(a, (k, 4))\<close> makes a new array of \<open>k\<close> rows from the elements of \<open>a\<close>,
  repeated as often as needed; from an empty \<open>a\<close> it makes zeros.
\<close>

definition np_resize :: "real option list list \<Rightarrow> nat \<Rightarrow> real option list list" where
  "np_resize a k =
     (if a = [] then replicate k (replicate 4 (Some 0)) else take k (concat (replicate k a)))"

text \<open>
  Assigning a list of numbers to one row of \<open>w\<close> components, and a list of rows to as
  many rows of \<open>w\<close> components: numpy takes rows of \<open>w\<close> components as they are,
  repeats a single component over the row, and raises \<open>ValueError\<close> for any other
  width.
\<close>

definition fit_row :: "nat \<Rightarrow> 'a list \<Rightarrow> error + 'a list" where
  "fit_row w v =
     (if length v = w then Inr v
      else if length v = 1 then Inr (replicate w (hd v))
      else Inl ValueError)"

definition fit_rows :: "nat \<Rightarrow> 'a list list \<Rightarrow> error + 'a list list" where
  "fit_rows w v =
     (if list_all (\<lambda>r. length r = w) v then Inr v
      else if list_all (\<lambda>r. length r = 1) v then Inr (map (\<lambda>r. replicate w (hd r)) v)
      else Inl ValueError)"

text \<open>
  \<open>QuaternionArray.appended(value)\<close>: \<open>ret\<close> is a new array, one row longer, and
  \<open>ret[-1] = value\<close> sets its last row.
\<close>

definition QuaternionArray_appended ::
  "store \<Rightarrow> ref \<Rightarrow> real option list \<Rightarrow> (error + ref option) \<times> store" where
  "QuaternionArray_appended h self value =
     (let rows = obj_rows (h ! self);
          ret = np_resize rows (length rows + 1)
      in case fit_row 4 value of
           Inl e \<Rightarrow> (Inl e, h)
         | Inr v \<Rightarrow> new_object h ((h ! self)\<lparr>obj_rows := ret[length ret - 1 := v]\<rparr>))"

text \<open>
  \<open>QuaternionArray.extended(value)\<close> with an object as the value. \<open>len(value)\<close> is
  the number of rows of an array, and the number of components of a vector or a
  quaternion, which numpy then assigns to each of that many rows. The value must
  have four components, or one, to go into rows of four.
  \<open>ret[-len(value):] = value\<close> with an empty value is \<open>ret[0:] = value\<close>, which numpy
  refuses unless \<open>ret\<close> is empty too.
\<close>

definition len_obj :: "obj \<Rightarrow> nat" where
  "len_obj x =
     (if is_array (obj_class x) then length (obj_rows x) else components (obj_class x))"

definition rows_assigned :: "obj \<Rightarrow> error + real option list list" where
  "rows_assigned x =
     (if components (obj_class x) \<noteq> 4 \<and> components (obj_class x) \<noteq> 1 then Inl ValueError
      else if is_array (obj_class x) then fit_rows 4 (obj_rows x)
      else (case fit_row 4 (hd (obj_rows x)) of
              Inl e \<Rightarrow> Inl e
            | Inr r \<Rightarrow> Inr (replicate (len_obj x) r)))"

definition QuaternionArray_extended :: "store \<Rightarrow> ref \<Rightarrow> ref \<Rightarrow> (error + ref option) \<times> store" where
  "QuaternionArray_extended h self value =
     (let rows = obj_rows (h ! self);
          k = len_obj (h ! value);
          ret = np_resize rows (length rows + k)
      in case rows_assigned (h ! value) of
           Inl e \<Rightarrow> (Inl e, h)
         | Inr v \<Rightarrow>
             if k = 0 then
               (if ret = [] then new_object h ((h ! self)\<lparr>obj_rows := ret\<rparr>)
                else (Inl ValueError, h))
             else new_object h ((h ! self)\<lparr>obj_rows := take (length ret - k) ret @ v\<rparr>))"

text \<open>
  \<open>VectorNArray.append(v)\<close> and \<open>VectorNArray.extend(v)\<close> for the class of size \<open>N\<close>.
  \<open>self.resize(...)\<close> is the method of \<open>ndarray\<close>: it changes the array itself,
  filling new rows with zeros, and raises \<open>ValueError\<close> when the number of elements
  changes and numpy does not let the buffer be reallocated (the array does not own it,
  as a view does not, or is referred to elsewhere). The store does not record that, so
  it is the argument \<open>resizable\<close>. The assignment comes after the resize: where it
  raises, the receiver has grown already. Neither method has a \<open>return\<close>: the result
  is \<open>None\<close>. An empty list as \<open>v\<close> has the shape \<open>(0,)\<close>, which cannot be assigned
  to rows of \<open>N\<close> components.
\<close>

definition VectorNArray_append ::
  "nat \<Rightarrow> bool \<Rightarrow> store \<Rightarrow> ref \<Rightarrow> real option list \<Rightarrow> (error + ref option) \<times> store" where
  "VectorNArray_append N resizable h self v =
     (if \<not> resizable then (Inl ValueError, h)
      else
        let resized = obj_rows (h ! self) @ [replicate N (Some 0)] in
        case fit_row N v of
          Inl e \<Rightarrow> (Inl e, h[self := (h ! self)\<lparr>obj_rows := resized\<rparr>])
        | Inr w \<Rightarrow>
            (Inr None, h[self := (h ! self)\<lparr>obj_rows := resized[length resized - 1 := w]\<rparr>]))"

definition VectorNArray_extend ::
  "nat \<Rightarrow> bool \<Rightarrow> store \<Rightarrow> ref \<Rightarrow> real option list list \<Rightarrow> (error + ref option) \<times> store" where
  "VectorNArray_extend N resizable h self v =
     (if v = [] then (Inl ValueError, h)
      else if \<not> resizable then (Inl ValueError, h)
      else
        let resized = obj_rows (h ! self) @ replicate (length v) (replicate N (Some 0)) in
        case fit_rows N v of
          Inl e \<Rightarrow> (Inl e, h[self := (h ! self)\<lparr>obj_rows := resized\<rparr>])
        | Inr w \<Rightarrow>
            (Inr None,
             h[self := (h ! self)\<lparr>obj_rows := take (length resized - length v) resized @ w\<rparr>]))"

text \<open>A call of a method on the object \<open>self\<close>.\<close>

definition call_method :: "bool \<Rightarrow> store \<Rightarrow> ref \<Rightarrow> call \<Rightarrow> (error + ref option) \<times> store" where
  "call_method resizable h self c =
     (if \<not> has_method (obj_class (h ! self)) c then (Inl AttributeError, h)
      else case c of
        Normal \<Rightarrow> call_normal h self
      | Normalize \<Rightarrow> call_normalize h self
      | AsVectorSize n pad \<Rightarrow> call_asVectorSize h self n pad
      | Appended value \<Rightarrow> QuaternionArray_appended h self value
      | Extended value \<Rightarrow> QuaternionArray_extended h self value
      | Append v \<Rightarrow> VectorNArray_append (components (obj_class (h ! self))) resizable h self v
      | Extend v \<Rightarrow> VectorNArray_extend (components (obj_class (h ! self))) resizable h self v)"

section \<open>Properties\<close>

lemma length4_rowE:
  assumes "length (r::row) = 4"
  obtains a b c d where "r = [a, b, c, d]"
proof -
  from assms obtain a r1 where r: "r = a # r1" and "length r1 = 3"
    by (cases r) auto
  then obtain b r2 where r1: "r1 = b # r2" and "length r2 = 2"
    by (cases r1) auto
  then obtain c r3 where r2: "r2 = c # r3" and "length r3 = 1"
    by (cases r2) auto
  then obtain d where "r3 = [d]"
    by (cases r3) auto
  with r r1 r2 show thesis using that by simp
qed

lemma quat_row_product_components:
  assumes "length p = 4" and "length q = 4"
  shows "quat_row_product p q =
    [p ! 3 * q ! 0 + q ! 3 * p ! 0 + (p ! 1 * q ! 2 - p ! 2 * q ! 1),
     p ! 3 * q ! 1 + q ! 3 * p ! 1 + (p ! 2 * q ! 0 - p ! 0 * q ! 2),
     p ! 3 * q ! 2 + q ! 3 * p ! 2 + (p ! 0 * q ! 1 - p ! 1 * q ! 0),
     p ! 3 * q ! 3 - (p ! 0 * q ! 0 + p ! 1 * q ! 1 + p ! 2 * q ! 2)]"
proof -
  from assms(1) obtain a b c d where p: "p = [a, b, c, d]" by (rule length4_rowE)
  from assms(2) obtain e f g h where q: "q = [e, f, g, h]" by (rule length4_rowE)
  show ?thesis
    unfolding p q
    by (simp add: quat_row_product_def row_add_def row_scale_def np_cross_def)
qed

subsection \<open>Hamilton product\<close>

lemma qq_eq:
  assumes "length p = length q"
  shows "quatquatProduct p q = Inr (map (\<lambda>(a, b). quat_row_product a b) (zip p q))"
  using assms by (simp add: quatquatProduct_def arrayCompat_def broadcast_rows_def Let_def)

lemma zip_single_left: "length q = Suc 0 \<Longrightarrow> zip [a] q = map (Pair a) q"
  by (cases q) auto

lemma zip_single_right: "length p = Suc 0 \<Longrightarrow> zip p [b] = map (\<lambda>x. (x, b)) p"
  by (cases p) auto

lemma qq_left:
  assumes "q \<noteq> []"
  shows "quatquatProduct [a] q = Inr (map (\<lambda>b. quat_row_product a b) q)"
proof -
  have "max (Suc 0) (length q) = length q" using assms by (cases q) auto
  then show ?thesis
    by (simp add: quatquatProduct_def arrayCompat_def broadcast_rows_def comp_def Let_def
        zip_single_left)
qed

lemma qq_right:
  assumes "p \<noteq> []"
  shows "quatquatProduct p [b] = Inr (map (\<lambda>a. quat_row_product a b) p)"
proof -
  have "max (length p) (Suc 0) = length p" using assms by (cases p) auto
  then show ?thesis
    by (simp add: quatquatProduct_def arrayCompat_def broadcast_rows_def comp_def Let_def
        zip_single_right)
qed

lemma single_list: "length p = 1 \<Longrightarrow> p = [p ! 0]"
  by (cases p) auto

lemma quatquatProduct_ok:
  assumes "length p = length q \<or> (length p = 1 \<and> q \<noteq> []) \<or> (length q = 1 \<and> p \<noteq> [])"
  shows "quatquatProduct p q = Inr (map (\<lambda>i. quat_row_product (p ! (if length p = 1 then 0 else i)) (q ! (if length q = 1 then 0 else i))) [0..<max (length p) (length q)])"
proof -
  consider (eq) "length p = length q" | (l) "length p \<noteq> length q" "length p = 1" "q \<noteq> []"
    | (r) "length p \<noteq> length q" "length p \<noteq> 1" "length q = 1" "p \<noteq> []"
    using assms by fastforce
  then show ?thesis
  proof cases
    case eq
    have "map (\<lambda>(a, b). quat_row_product a b) (zip p q) =
      map (\<lambda>i. quat_row_product (p ! (if length p = 1 then 0 else i)) (q ! (if length q = 1 then 0 else i))) [0..<max (length p) (length q)]"
      using eq by (intro nth_equalityI) auto
    then show ?thesis using qq_eq [OF eq] by simp
  next
    case l
    from l(2) have p: "p = [p ! 0]" by (rule single_list)
    have m: "max (length p) (length q) = length q" using l by (cases q) auto
    have "map (\<lambda>b. quat_row_product (p ! 0) b) q =
      map (\<lambda>i. quat_row_product (p ! (if length p = 1 then 0 else i)) (q ! (if length q = 1 then 0 else i))) [0..<max (length p) (length q)]"
      unfolding m using l by (intro nth_equalityI) auto
    then show ?thesis using qq_left [OF l(3), of "p ! 0"] p by simp
  next
    case r
    from r(3) have q: "q = [q ! 0]" by (rule single_list)
    have m: "max (length p) (length q) = length p" using r by (cases p) auto
    have "map (\<lambda>a. quat_row_product a (q ! 0)) p =
      map (\<lambda>i. quat_row_product (p ! (if length p = 1 then 0 else i)) (q ! (if length q = 1 then 0 else i))) [0..<max (length p) (length q)]"
      unfolding m using r by (intro nth_equalityI) auto
    then show ?thesis using qq_right [OF r(4), of "q ! 0"] q by simp
  qed
qed

lemma broadcast_index:
  assumes "length p = length q \<or> (length p = 1 \<and> q \<noteq> []) \<or> (length q = 1 \<and> p \<noteq> [])"
    and "i < max (length p) (length q)"
  shows "(if length p = 1 then 0 else i) < length p" and "(if length q = 1 then 0 else i) < length q"
  using assms by (auto simp: max_def split: if_splits)


text \<open>
  Claim C5. The Hamilton product of two quaternion batches, broadcast to the longer
  batch, has in every row the scalar part \<open>p.w*q.w - dot(p.xyz, q.xyz)\<close> and the
  vector part \<open>p.w*q.xyz + q.w*p.xyz + cross(p.xyz, q.xyz)\<close>, written out here by
  component; and the identity quaternion times itself is the identity quaternion.
\<close>

theorem quatquatProduct_hamilton:
  assumes "\<forall>r\<in>set p. length r = 4" and "\<forall>r\<in>set q. length r = 4"
    and "length p = length q \<or> (length p = 1 \<and> q \<noteq> []) \<or> (length q = 1 \<and> p \<noteq> [])"
  shows "(\<exists>r. quatquatProduct p q = Inr r \<and> length r = max (length p) (length q) \<and>
     (\<forall>i<length r.
        let a = p ! (if length p = 1 then 0 else i); b = q ! (if length q = 1 then 0 else i) in
        r ! i =
          [a ! 3 * b ! 0 + b ! 3 * a ! 0 + (a ! 1 * b ! 2 - a ! 2 * b ! 1),
           a ! 3 * b ! 1 + b ! 3 * a ! 1 + (a ! 2 * b ! 0 - a ! 0 * b ! 2),
           a ! 3 * b ! 2 + b ! 3 * a ! 2 + (a ! 0 * b ! 1 - a ! 1 * b ! 0),
           a ! 3 * b ! 3 - (a ! 0 * b ! 0 + a ! 1 * b ! 1 + a ! 2 * b ! 2)]))
   \<and> Quaternion_mul (fromComponents 0 0 0 1) (fromComponents 0 0 0 1) = Inr (fromComponents 0 0 0 1)"
proof (intro conjI)
  let ?n = "max (length p) (length q)"
  let ?a = "\<lambda>i. p ! (if length p = 1 then 0 else i)"
  let ?b = "\<lambda>i. q ! (if length q = 1 then 0 else i)"
  let ?r = "map (\<lambda>i. quat_row_product (?a i) (?b i)) [0..<?n]"
  have len: "length (?a i) = 4" "length (?b i) = 4" if "i < ?n" for i
    using broadcast_index [OF assms(3) that] assms(1,2) by (meson nth_mem)+
  have rows: "?r ! i = quat_row_product (?a i) (?b i)" if "i < ?n" for i
    using that by simp
  have "\<forall>i<length ?r.
        let a = ?a i; b = ?b i in
        ?r ! i =
          [a ! 3 * b ! 0 + b ! 3 * a ! 0 + (a ! 1 * b ! 2 - a ! 2 * b ! 1),
           a ! 3 * b ! 1 + b ! 3 * a ! 1 + (a ! 2 * b ! 0 - a ! 0 * b ! 2),
           a ! 3 * b ! 2 + b ! 3 * a ! 2 + (a ! 0 * b ! 1 - a ! 1 * b ! 0),
           a ! 3 * b ! 3 - (a ! 0 * b ! 0 + a ! 1 * b ! 1 + a ! 2 * b ! 2)]"
  proof (intro allI impI)
    fix i assume "i < length ?r"
    then have i: "i < ?n" by simp
    show "let a = ?a i; b = ?b i in
        ?r ! i =
          [a ! 3 * b ! 0 + b ! 3 * a ! 0 + (a ! 1 * b ! 2 - a ! 2 * b ! 1),
           a ! 3 * b ! 1 + b ! 3 * a ! 1 + (a ! 2 * b ! 0 - a ! 0 * b ! 2),
           a ! 3 * b ! 2 + b ! 3 * a ! 2 + (a ! 0 * b ! 1 - a ! 1 * b ! 0),
           a ! 3 * b ! 3 - (a ! 0 * b ! 0 + a ! 1 * b ! 1 + a ! 2 * b ! 2)]"
      unfolding Let_def rows [OF i]
      by (rule quat_row_product_components [OF len [OF i]])
  qed
  moreover have "length ?r = ?n" by simp
  ultimately show "\<exists>r. quatquatProduct p q = Inr r \<and> length r = ?n \<and>
     (\<forall>i<length r.
        let a = p ! (if length p = 1 then 0 else i); b = q ! (if length q = 1 then 0 else i) in
        r ! i =
          [a ! 3 * b ! 0 + b ! 3 * a ! 0 + (a ! 1 * b ! 2 - a ! 2 * b ! 1),
           a ! 3 * b ! 1 + b ! 3 * a ! 1 + (a ! 2 * b ! 0 - a ! 0 * b ! 2),
           a ! 3 * b ! 2 + b ! 3 * a ! 2 + (a ! 0 * b ! 1 - a ! 1 * b ! 0),
           a ! 3 * b ! 3 - (a ! 0 * b ! 0 + a ! 1 * b ! 1 + a ! 2 * b ! 2)])"
    using quatquatProduct_ok [OF assms(3)] by blast
  show "Quaternion_mul (fromComponents 0 0 0 1) (fromComponents 0 0 0 1) = Inr (fromComponents 0 0 0 1)"
    by (simp add: Quaternion_mul_def qq_eq quat_row_product_def fromComponents_def
        row_add_def row_scale_def np_cross_def)
qed

text \<open>The theorem at a batch of one quaternion against a batch of two.\<close>

theorem quatquatProduct_hamilton_witness:
  "quatquatProduct [[1, 2, 3, 4]] [[5, 6, 7, 8], [0, 0, 0, 1]] = Inr [[24, 48, 48, -6], [1, 2, 3, 4]]"
proof -
  let ?p = "[[1, 2, 3, 4::real]]" and ?q = "[[5, 6, 7, 8], [0, 0, 0, 1::real]]"
  have h1: "\<forall>r\<in>set ?p. length r = 4" by simp
  have h2: "\<forall>r\<in>set ?q. length r = 4" by simp
  have h3: "length ?p = length ?q \<or> (length ?p = 1 \<and> ?q \<noteq> []) \<or> (length ?q = 1 \<and> ?p \<noteq> [])"
    by simp
  from quatquatProduct_hamilton [OF h1 h2 h3]
  obtain r where r: "quatquatProduct ?p ?q = Inr r"
    and l: "length r = 2"
    and n: "\<forall>i<length r. 
        let a = ?p ! (if length ?p = 1 then 0 else i); b = ?q ! (if length ?q = 1 then 0 else i) in
        r ! i =
          [a ! 3 * b ! 0 + b ! 3 * a ! 0 + (a ! 1 * b ! 2 - a ! 2 * b ! 1),
           a ! 3 * b ! 1 + b ! 3 * a ! 1 + (a ! 2 * b ! 0 - a ! 0 * b ! 2),
           a ! 3 * b ! 2 + b ! 3 * a ! 2 + (a ! 0 * b ! 1 - a ! 1 * b ! 0),
           a ! 3 * b ! 3 - (a ! 0 * b ! 0 + a ! 1 * b ! 1 + a ! 2 * b ! 2)]"
    by auto
  from l obtain x y where xy: "r = [x, y]"
    by (cases r; cases "tl r") auto
  from n have "r ! 0 = [24, 48, 48, -6]" "r ! 1 = [1, 2, 3, 4]"
    unfolding l by (simp_all add: Let_def)
  with xy r show ?thesis by simp
qed

subsection \<open>Axis and angle\<close>

lemma axisAngle_single:
  assumes "length a = 3"
  shows "axisAngle [a] [t] degrees = Inr [axisAngle_row a (if degrees then deg2rad t else t)]"
  using assms
  by (simp add: axisAngle_def axisAngle_rows_def axes_columns_def arrayCompat_def
      broadcast_rows_def)

lemma axisAngle_z_pi: "axisAngle [[0, 0, 1]] [pi] False = Inr [[0, 0, 0, -1]]"
  by (simp add: axisAngle_single axisAngle_row_def row_scale_def)

lemma vq_single: "vectorquatproduct [[1, 0, 0]] [[0, 0, 0, -1]] = Inr [[1, 0, 0]]"
  by (simp add: vectorquatproduct_def arrayCompat_def broadcast_rows_def np_cross_def
      scale_last_axis_def row_scale_def row_add_def)

text \<open>
  Claim C1. The quaternion that \<open>QuaternionArray.axisAngle\<close> builds from the axis
  \<open>[0,0,1]\<close> and the angle \<open>\<pi>\<close> should turn the vector \<open>[1,0,0]\<close> into
  \<open>[-1,0,0]\<close>. The code takes the sine and cosine of the whole angle, not of half of
  it, so the quaternion is \<open>(0,0,0,-1)\<close> and the product is the vector \<open>[1,0,0]\<close>
  itself.
\<close>

theorem axisAngle_pi_rotates_by_full_turn:
  "(case axisAngle [[0, 0, 1]] [pi] False of
      Inl e \<Rightarrow> Inl e
    | Inr q \<Rightarrow> VectorN_mul 3 [1, 0, 0] (QuaternionArray q)) = Inr (VectorArray 3 [[1, 0, 0]])"
  by (simp add: axisAngle_z_pi VectorN_mul_def VectorN_asVectorSize_def VectorNArray_asVectorSize_def vq_single)

subsection \<open>Rotations about a named axis\<close>

lemma alignedRotations_single:
  assumes "str_index ''xyz'' (lower a) = Inr i"
  shows "alignedRotations a [t] degrees =
    Inr [([0, 0, 0, cos ((if degrees then deg2rad t else t) / 2)])
            [i := sin ((if degrees then deg2rad t else t) / 2)]]"
  using assms by (simp add: alignedRotations_def QuaternionArray_zeros_def)

lemma axis_name_index:
  assumes "(a = ''x'' \<and> i = 0) \<or> (a = ''y'' \<and> i = 1) \<or> (a = ''z'' \<and> i = 2)"
  shows "str_index ''xyz'' (lower a) = Inr i"
proof -
  have "lower ''x'' = ''x''" "lower ''y'' = ''y''" "lower ''z'' = ''z''"
    by code_simp+
  then show ?thesis using assms by auto
qed

text \<open>
  Claim C9. For an axis name among x, y, z and an angle \<open>t\<close> (turned into radians
  first when \<open>degrees\<close> is set), \<open>alignedRotations\<close> gives the quaternion with scalar
  part \<open>cos(t/2)\<close>, the component of the named axis \<open>sin(t/2)\<close> and the other two
  zero. This is \<open>axisAngle\<close> on the basis vector of that axis with the angle \<open>t/2\<close>,
  and not with the angle \<open>t\<close>: the two differ at \<open>t = \<pi>\<close>.
\<close>

theorem alignedRotations_half_angle:
  assumes "(a = ''x'' \<and> i = 0) \<or> (a = ''y'' \<and> i = 1) \<or> (a = ''z'' \<and> i = (2::nat))"
  shows "(\<exists>r. alignedRotations a [t] degrees = Inr [r] \<and> length r = 4 \<and>
            r ! 3 = cos ((if degrees then deg2rad t else t) / 2) \<and>
            r ! i = sin ((if degrees then deg2rad t else t) / 2) \<and>
            (\<forall>j<3. j \<noteq> i \<longrightarrow> r ! j = 0)) \<and>
         alignedRotations a [t] degrees = axisAngle [[0, 0, 0][i := 1]] [t / 2] degrees \<and>
         alignedRotations a [pi] False \<noteq> axisAngle [[0, 0, 0][i := 1]] [pi] False"
proof -
  let ?h = "(if degrees then deg2rad t else t) / 2"
  have i: "i = 0 \<or> i = 1 \<or> i = 2" using assms by auto
  note al = alignedRotations_single [OF axis_name_index [OF assms]]
  have 1: "\<exists>r. alignedRotations a [t] degrees = Inr [r] \<and> length r = 4 \<and>
            r ! 3 = cos ?h \<and> r ! i = sin ?h \<and> (\<forall>j<3. j \<noteq> i \<longrightarrow> r ! j = 0)"
    unfolding al using i by (auto simp: less_Suc_eq numeral_3_eq_3)
  have d: "deg2rad (t / 2) = deg2rad t / 2" by (simp add: deg2rad_def)
  have l3: "length ([0, 0, 0::real][i := 1]) = 3" by (simp only: length_list_update) simp
  note ax = axisAngle_single [OF l3]
  have 2: "alignedRotations a [t] degrees = axisAngle [[0, 0, 0][i := 1]] [t / 2] degrees"
    unfolding al ax using i
    by (auto simp: axisAngle_row_def row_scale_def d)
  have 3: "alignedRotations a [pi] False \<noteq> axisAngle [[0, 0, 0][i := 1]] [pi] False"
    unfolding al ax using i
    by (auto simp: axisAngle_row_def row_scale_def)
  from 1 2 3 show ?thesis by blast
qed

text \<open>The theorem at the axis z and the angle \<open>\<pi>\<close>.\<close>

theorem alignedRotations_half_angle_witness:
  "alignedRotations ''z'' [pi] False = Inr [[0, 0, 1, 0]] \<and>
   axisAngle [[0, 0, 1]] [pi / 2] False = Inr [[0, 0, 1, 0]] \<and>
   axisAngle [[0, 0, 1]] [pi] False = Inr [[0, 0, 0, -1]]"
proof -
  have h: "(''z'' = ''x'' \<and> (2::nat) = 0) \<or> (''z'' = ''y'' \<and> (2::nat) = 1) \<or> (''z'' = ''z'' \<and> (2::nat) = 2)"
    by simp
  have a: "axisAngle [[0, 0, 1]] [pi / 2] False = Inr [[0, 0, 1, 0]]"
    "axisAngle [[0, 0, 1]] [pi] False = Inr [[0, 0, 0, -1]]"
    by (simp_all add: axisAngle_single axisAngle_row_def row_scale_def)
  from alignedRotations_half_angle [OF h, of pi False]
  have "alignedRotations ''z'' [pi] False = axisAngle [[0, 0, 0][2 := 1]] [pi / 2] False"
    by blast
  with a show ?thesis by simp
qed

subsection \<open>Resizing\<close>

lemma registered: "n = 2 \<or> n = 3 \<or> n = 4 \<Longrightarrow> VECTOR_BY_SIZE n = Some n"
  "n = 2 \<or> n = 3 \<or> n = 4 \<Longrightarrow> VECTOR_ARRAY_BY_SIZE n = Some n"
  by (simp_all add: VECTOR_BY_SIZE_def VECTOR_ARRAY_BY_SIZE_def)

lemma VectorN_asVectorSize_value:
  assumes "length v = N" and "M = 2 \<or> M = 3 \<or> M = 4"
  shows "VectorN_asVectorSize N v M pad = Inr (take M v @ replicate (M - N) pad)"
  using assms
  by (auto simp: VectorN_asVectorSize_def registered VectorN_full_def min_def)

lemma VectorNArray_asVectorSize_value:
  assumes "\<forall>r\<in>set a. length r = N" and "M = 2 \<or> M = 3 \<or> M = 4"
  shows "VectorNArray_asVectorSize N a M pad = Inr (map (\<lambda>r. take M r @ replicate (M - N) pad) a)"
proof (cases "M = N")
  case True
  have "map (\<lambda>r. take M r @ replicate (M - N) pad) a = a"
    using assms(1) True by (simp add: map_idI)
  then show ?thesis using True by (simp add: VectorNArray_asVectorSize_def)
next
  case False
  have "map (\<lambda>(r, s). take (min M N) s @ drop (min M N) r) (zip (replicate (length a) (replicate M pad)) a)
     = map (\<lambda>r. take M r @ replicate (M - N) pad) a"
    using assms(1) by (intro nth_equalityI) (auto simp: min_def)
  then show ?thesis using False assms(2)
    by (simp add: VectorNArray_asVectorSize_def registered VectorNArray_full_def)
qed

text \<open>
  Claim C6. For a vector or a vector array of size \<open>N\<close> and a registered size \<open>M\<close>,
  \<open>asVectorSize(M)\<close> is a copy when \<open>M = N\<close>, the first \<open>M\<close> components when
  \<open>M < N\<close>, and the original components followed by the pad value when \<open>N < M\<close>.
  Resizing to \<open>M\<close> and back to \<open>N\<close> gives the original when \<open>N \<le> M\<close>; when
  \<open>M < N\<close> it gives the first \<open>M\<close> components followed by the pad value of the second
  call. The default pad value is one.
\<close>

theorem asVectorSize_resize:
  assumes "length v = N" and "\<forall>r\<in>set a. length r = N"
    and "N = 2 \<or> N = 3 \<or> N = 4" and "M = 2 \<or> M = 3 \<or> M = 4"
  shows "(M = N \<longrightarrow> VectorN_asVectorSize N v M pad = Inr v \<and>
                    VectorNArray_asVectorSize N a M pad = Inr a) \<and>
         (M < N \<longrightarrow> VectorN_asVectorSize N v M pad = Inr (take M v) \<and>
                    VectorNArray_asVectorSize N a M pad = Inr (map (take M) a)) \<and>
         (N < M \<longrightarrow> VectorN_asVectorSize N v M pad = Inr (v @ replicate (M - N) pad) \<and>
                    VectorNArray_asVectorSize N a M pad =
                      Inr (map (\<lambda>r. r @ replicate (M - N) pad) a)) \<and>
         (N \<le> M \<longrightarrow>
            (case VectorN_asVectorSize N v M pad of
               Inl e \<Rightarrow> Inl e | Inr u \<Rightarrow> VectorN_asVectorSize M u N pad') = Inr v \<and>
            (case VectorNArray_asVectorSize N a M pad of
               Inl e \<Rightarrow> Inl e | Inr b \<Rightarrow> VectorNArray_asVectorSize M b N pad') = Inr a) \<and>
         (M < N \<longrightarrow>
            (case VectorN_asVectorSize N v M pad of
               Inl e \<Rightarrow> Inl e | Inr u \<Rightarrow> VectorN_asVectorSize M u N pad') =
              Inr (take M v @ replicate (N - M) pad') \<and>
            (case VectorNArray_asVectorSize N a M pad of
               Inl e \<Rightarrow> Inl e | Inr b \<Rightarrow> VectorNArray_asVectorSize M b N pad') =
              Inr (map (\<lambda>r. take M r @ replicate (N - M) pad') a)) \<and>
         default_pad = 1"
proof -
  note v = VectorN_asVectorSize_value [OF assms(1) assms(4), of pad]
  note a = VectorNArray_asVectorSize_value [OF assms(2) assms(4), of pad]
  let ?u = "take M v @ replicate (M - N) pad"
  let ?b = "map (\<lambda>r. take M r @ replicate (M - N) pad) a"
  have lu: "length ?u = M" using assms(1) by auto
  have lb: "\<forall>r\<in>set ?b. length r = M" using assms(2) by auto
  note v2 = VectorN_asVectorSize_value [OF lu assms(3), of pad']
  note a2 = VectorNArray_asVectorSize_value [OF lb assms(3), of pad']
  have 1: "M = N \<longrightarrow> VectorN_asVectorSize N v M pad = Inr v \<and>
                    VectorNArray_asVectorSize N a M pad = Inr a"
    by (simp add: VectorN_asVectorSize_def VectorNArray_asVectorSize_def)
  have 2: "M < N \<longrightarrow> VectorN_asVectorSize N v M pad = Inr (take M v) \<and>
                    VectorNArray_asVectorSize N a M pad = Inr (map (take M) a)"
    unfolding v a by simp
  have 3: "N < M \<longrightarrow> VectorN_asVectorSize N v M pad = Inr (v @ replicate (M - N) pad) \<and>
                    VectorNArray_asVectorSize N a M pad =
                      Inr (map (\<lambda>r. r @ replicate (M - N) pad) a)"
    unfolding v a using assms(1,2) by simp
  have 4: "N \<le> M \<longrightarrow>
            (case VectorN_asVectorSize N v M pad of
               Inl e \<Rightarrow> Inl e | Inr u \<Rightarrow> VectorN_asVectorSize M u N pad') = Inr v \<and>
            (case VectorNArray_asVectorSize N a M pad of
               Inl e \<Rightarrow> Inl e | Inr b \<Rightarrow> VectorNArray_asVectorSize M b N pad') = Inr a"
  proof (intro impI conjI)
    assume le: "N \<le> M"
    have "take N ?u @ replicate (N - M) pad' = v" using le assms(1) by simp
    then show "(case VectorN_asVectorSize N v M pad of
               Inl e \<Rightarrow> Inl e | Inr u \<Rightarrow> VectorN_asVectorSize M u N pad') = Inr v"
      by (simp only: v v2 sum.case)
    have "map (\<lambda>r. take N r @ replicate (N - M) pad') ?b = a"
      using le assms(2) by (simp add: comp_def map_idI)
    then show "(case VectorNArray_asVectorSize N a M pad of
               Inl e \<Rightarrow> Inl e | Inr b \<Rightarrow> VectorNArray_asVectorSize M b N pad') = Inr a"
      by (simp only: a a2 sum.case)
  qed
  have 5: "M < N \<longrightarrow>
            (case VectorN_asVectorSize N v M pad of
               Inl e \<Rightarrow> Inl e | Inr u \<Rightarrow> VectorN_asVectorSize M u N pad') =
              Inr (take M v @ replicate (N - M) pad') \<and>
            (case VectorNArray_asVectorSize N a M pad of
               Inl e \<Rightarrow> Inl e | Inr b \<Rightarrow> VectorNArray_asVectorSize M b N pad') =
              Inr (map (\<lambda>r. take M r @ replicate (N - M) pad') a)"
  proof (intro impI conjI)
    assume lt: "M < N"
    have "take N ?u @ replicate (N - M) pad' = take M v @ replicate (N - M) pad'"
      using lt assms(1) by simp
    then show "(case VectorN_asVectorSize N v M pad of
               Inl e \<Rightarrow> Inl e | Inr u \<Rightarrow> VectorN_asVectorSize M u N pad') =
              Inr (take M v @ replicate (N - M) pad')"
      by (simp only: v v2 sum.case)
    have "map (\<lambda>r. take N r @ replicate (N - M) pad') ?b =
        map (\<lambda>r. take M r @ replicate (N - M) pad') a"
      using lt assms(2) by (simp add: comp_def)
    then show "(case VectorNArray_asVectorSize N a M pad of
               Inl e \<Rightarrow> Inl e | Inr b \<Rightarrow> VectorNArray_asVectorSize M b N pad') =
              Inr (map (\<lambda>r. take M r @ replicate (N - M) pad') a)"
      by (simp only: a a2 sum.case)
  qed
  from 1 2 3 4 5 show ?thesis by (simp add: default_pad_def)
qed

text \<open>A size other than the own one that is not registered raises \<open>KeyError\<close>.\<close>

lemma asVectorSize_unregistered:
  assumes "n \<noteq> N" and "n \<noteq> 2" and "n \<noteq> 3" and "n \<noteq> 4"
  shows "VectorN_asVectorSize N v n pad = Inl KeyError"
    and "VectorNArray_asVectorSize N a n pad = Inl KeyError"
  using assms
  by (simp_all add: VectorN_asVectorSize_def VectorNArray_asVectorSize_def
      VECTOR_BY_SIZE_def VECTOR_ARRAY_BY_SIZE_def)

text \<open>The theorem at a vector and an array of size three, resized to four and to two.\<close>

theorem asVectorSize_resize_witness:
  "VectorN_asVectorSize 3 [5, 6, 7] 4 (9::real) = Inr [5, 6, 7, 9] \<and>
   VectorN_asVectorSize 3 [5, 6, 7] 2 (9::real) = Inr [5, 6] \<and>
   VectorN_asVectorSize 2 [5, 6] 3 (1::real) = Inr [5, 6, 1] \<and>
   VectorNArray_asVectorSize 3 [[5, 6, 7], [1, 2, 3]] 4 (9::real) =
     Inr [[5, 6, 7, 9], [1, 2, 3, 9]] \<and>
   VectorNArray_asVectorSize 3 [[5, 6, 7], [1, 2, 3]] 2 (9::real) = Inr [[5, 6], [1, 2]]"
proof -
  have h1: "length [5, 6, 7::real] = 3" by simp
  have h2: "\<forall>r\<in>set [[5, 6, 7], [1, 2, 3::real]]. length r = 3" by simp
  have n3: "(3::nat) = 2 \<or> (3::nat) = 3 \<or> (3::nat) = 4" by simp
  have n4: "(4::nat) = 2 \<or> (4::nat) = 3 \<or> (4::nat) = 4" by simp
  have n2: "(2::nat) = 2 \<or> (2::nat) = 3 \<or> (2::nat) = 4" by simp
  have "VectorN_asVectorSize 2 [5, 6] 3 (1::real) = Inr [5, 6, 1]"
    by (simp add: VectorN_asVectorSize_def VECTOR_BY_SIZE_def VectorN_full_def)
  then show ?thesis
    using asVectorSize_resize [OF h1 h2 n3 n4, of 9 0] asVectorSize_resize [OF h1 h2 n3 n2, of 9 0]
    by simp
qed

subsection \<open>Spherical interpolation\<close>

lemma slerp_single:
  "slerp [p] [q] t =
     Inr [map2 nan_add (map (\<lambda>x. nan_mul x (map_option fst (slerp_ratios p q t))) p)
                        (map (\<lambda>x. nan_mul x (map_option snd (slerp_ratios p q t))) q)]"
  by (simp add: slerp_def arrayCompat_def broadcast_rows_def weight_last_axis_def Let_def)

lemma slerp_ratios_identity: "slerp_ratios [0, 0, 0, 1] [0, 0, 0, 1] t = None"
  by (simp add: slerp_ratios_def row_dot_def)

text \<open>
  Claim C4. \<open>slerp\<close> at \<open>0\<close> should be the first quaternion and at \<open>1\<close> the second.
  For the identity quaternion against itself the dot product is \<open>1\<close>, the clamp
  leaves the cosine at \<open>1\<close>, the half angle and its sine are \<open>0\<close>, both ratios are
  \<open>0/0\<close>, and every component of the result is NaN, at \<open>0\<close> as at \<open>1\<close>. Every
  step of this is exact in float64 too.
\<close>

theorem slerp_identity_with_itself_is_nan:
  "slerp [[0, 0, 0, 1]] [[0, 0, 0, 1]] 0 = Inr [[None, None, None, None]] \<and>
   slerp [[0, 0, 0, 1]] [[0, 0, 0, 1]] 1 = Inr [[None, None, None, None]]"
  by (simp add: slerp_single slerp_ratios_identity nan_mul_def nan_add_def)

subsection \<open>Constructors\<close>

text \<open>
  Claim C10. The constructors of \<open>Quaternion\<close> and \<open>VectorN\<close> raise exactly when the
  number of elements of the input differs from four, respectively \<open>N\<close>; an input of
  that many elements is accepted whatever its shape, and keeps its shape: the nested
  list \<open>[[1,2,3,4]]\<close> becomes a quaternion of shape \<open>(1,4)\<close>. Without an input the
  constructors make the identity quaternion and the zero vector.
\<close>

theorem scalar_constructors_size_check:
  "(Quaternion_new (Some a) = Inl ValueError \<longleftrightarrow> ndarray_size a \<noteq> 4) \<and>
   (ndarray_size a = 4 \<longrightarrow> Quaternion_new (Some a) = Inr a) \<and>
   (VectorN_new N (Some a) = Inl ValueError \<longleftrightarrow> ndarray_size a \<noteq> N) \<and>
   (ndarray_size a = N \<longrightarrow> VectorN_new N (Some a) = Inr a) \<and>
   Quaternion_new (Some \<lparr>shape = [1, 4], elems = [1, 2, 3, 4]\<rparr>) =
     Inr \<lparr>shape = [1, 4], elems = [1, 2, 3, 4]\<rparr> \<and>
   Quaternion_new None = Inr \<lparr>shape = [4], elems = [0, 0, 0, 1]\<rparr> \<and>
   VectorN_new N None = Inr \<lparr>shape = [N], elems = replicate N 0\<rparr>"
  by (simp add: Quaternion_new_def VectorN_new_def ndarray_size_def np_zeros_def numeral_eq_Suc)

text \<open>The theorem at inputs of shapes \<open>(2,2)\<close>, \<open>(3,1)\<close> and \<open>(3)\<close>.\<close>

theorem scalar_constructors_size_check_witness:
  "Quaternion_new (Some \<lparr>shape = [2, 2], elems = [1, 2, 3, 4]\<rparr>) =
     Inr \<lparr>shape = [2, 2], elems = [1, 2, 3, 4]\<rparr> \<and>
   VectorN_new 3 (Some \<lparr>shape = [3, 1], elems = [1, 2, 3]\<rparr>) =
     Inr \<lparr>shape = [3, 1], elems = [1, 2, 3]\<rparr> \<and>
   Quaternion_new (Some \<lparr>shape = [3], elems = [1, 2, 3]\<rparr>) = Inl ValueError \<and>
   VectorN_new 3 (Some \<lparr>shape = [2, 2], elems = [1, 2, 3, 4]\<rparr>) = Inl ValueError"
proof -
  have s: "ndarray_size \<lparr>shape = [2, 2], elems = [1, 2, 3, 4]\<rparr> = 4"
    "ndarray_size \<lparr>shape = [3, 1], elems = [1, 2, 3]\<rparr> = 3"
    "ndarray_size \<lparr>shape = [3], elems = [1, 2, 3]\<rparr> \<noteq> 4"
    "ndarray_size \<lparr>shape = [2, 2], elems = [1, 2, 3, 4]\<rparr> \<noteq> 3"
    by (simp_all add: ndarray_size_def)
  from scalar_constructors_size_check [of "\<lparr>shape = [2, 2], elems = [1, 2, 3, 4]\<rparr>" 3]
    scalar_constructors_size_check [of "\<lparr>shape = [3, 1], elems = [1, 2, 3]\<rparr>" 3]
    scalar_constructors_size_check [of "\<lparr>shape = [3], elems = [1, 2, 3]\<rparr>" 3] s
  show ?thesis by simp
qed

subsection \<open>Column indexing\<close>

lemma slice_len_full: "slice_len None None n = n"
  by (simp add: slice_len_def slice_bound_def)

lemma QuaternionArray_column_untyped:
  assumes "- 4 \<le> j" and "j < 4"
  shows "QuaternionArray_getitem [n, 4] (Tuple [Slice None None, Index j]) = Inr (Some NdArrayT, [n])"
  using assms by (simp add: QuaternionArray_getitem_def index_items_def slice_len_full)

lemma VectorNArray_column:
  assumes "- int N \<le> j" and "j < int N"
  shows "VectorNArray_getitem N [n, N] (Tuple [Slice None None, Index j]) =
    Inr (if n = N then Some (VectorT N) else Some NdArrayT, [n])"
  using assms
  by (simp add: VectorNArray_getitem_def index_items_def slice_len_full VectorNArray_getReturnType_def)

text \<open>
  Claim C2. Selecting one column of a batch, \<open>arr[:, 0]\<close>, should give a plain array
  for every batched class. \<open>QuaternionArray.__getitem__\<close> sees to that; for a vector
  array \<open>VectorNArray.__getitem__\<close> goes by the shape alone, and the column of a batch
  of \<open>N\<close> vectors of size \<open>N\<close> has the shape of one vector: it is returned as a
  \<open>VectorN\<close>.
\<close>

theorem VectorNArray_column_promoted:
  "VectorNArray_getitem 3 [3, 3] (Tuple [Slice None None, Index 0]) = Inr (Some (VectorT 3), [3]) \<and>
   QuaternionArray_getitem [4, 4] (Tuple [Slice None None, Index 0]) = Inr (Some NdArrayT, [4])"
  by (simp add: VectorNArray_column QuaternionArray_column_untyped)

subsection \<open>Parallel transport and adjacent lengths\<close>

lemma broadcast_rows_same: "length p = length q \<Longrightarrow> broadcast_rows p q = Inr (zip p q)"
  by (simp add: broadcast_rows_def)

lemma length_tl_butlast: "length (tl xs) = length (butlast xs)"
  by simp

lemma VectorNArray_cross_adjacent:
  "\<exists>b. VectorNArray_cross (tl a) (butlast a) = Inr b \<and> length b = length a - 1 \<and>
       list_all (\<lambda>r. length r = 3) b"
  by (simp add: VectorNArray_cross_def arrayCompat_def broadcast_rows_same list_all_iff
      np_cross_def split_def)

lemma length_VectorNArray_normal: "length (VectorNArray_normal a) = length a"
  by (simp add: VectorNArray_normal_def VectorNArray_length_def VectorNArray_lengthSquared_def)

lemma VectorNArray_angle_adjacent:
  "\<exists>b. VectorNArray_angle (tl a) (butlast a) = Inr b \<and> length b = length a - 1"
  by (simp add: VectorNArray_angle_def arrayCompat_def broadcast_rows_same
      length_VectorNArray_normal)

lemma axisAngle_rows_same:
  assumes "length axes = length angles" and "list_all (\<lambda>a. length a = 3) axes"
  shows "\<exists>q. axisAngle_rows f axes angles = Inr q \<and> length q = length axes"
  using assms by (simp add: axisAngle_rows_def axes_columns_def broadcast_rows_same)

lemma length_adjacent_differences: "length (adjacent_differences self) = length self - 1"
  by (simp add: adjacent_differences_def)

lemma transport_quats:
  obtains binorms angles0 quats where
    "VectorNArray_cross (tl (adjacent_differences self)) (butlast (adjacent_differences self)) = Inr binorms"
    "VectorNArray_angle (tl (adjacent_differences self)) (butlast (adjacent_differences self)) = Inr angles0"
    "axisAngle_rows (\<lambda>b a. map_option (axisAngle_row b) a) (arrayCompat binorms)
       (if invert then map (map_option uminus) angles0 else angles0) = Inr quats"
    "length quats = length self - 2"
proof -
  let ?adj = "adjacent_differences self"
  obtain binorms where b: "VectorNArray_cross (tl ?adj) (butlast ?adj) = Inr binorms"
    "length binorms = length ?adj - 1" "list_all (\<lambda>r. length r = 3) binorms"
    using VectorNArray_cross_adjacent by blast
  obtain angles0 where a: "VectorNArray_angle (tl ?adj) (butlast ?adj) = Inr angles0"
    "length angles0 = length ?adj - 1"
    using VectorNArray_angle_adjacent by blast
  let ?angles = "if invert then map (map_option uminus) angles0 else angles0"
  have "length (arrayCompat binorms) = length ?angles"
    using b(2) a(2) by (simp add: arrayCompat_def)
  moreover have "list_all (\<lambda>r. length r = 3) (arrayCompat binorms)"
    using b(3) by (simp add: arrayCompat_def)
  ultimately have "\<exists>q. axisAngle_rows (\<lambda>b a. map_option (axisAngle_row b) a)
       (arrayCompat binorms) ?angles = Inr q \<and> length q = length (arrayCompat binorms)"
    by (rule axisAngle_rows_same)
  then
  obtain quats where q: "axisAngle_rows (\<lambda>b a. map_option (axisAngle_row b) a)
       (arrayCompat binorms) ?angles = Inr quats" "length quats = length (arrayCompat binorms)"
    by blast
  have "length quats = length self - 2"
    using q(2) b(2) by (simp add: arrayCompat_def length_adjacent_differences)
  with b(1) a(1) q(1) show thesis using that by blast
qed

text \<open>
  Whatever the points, the up-vector and the flag, \<open>parallelTransport\<close> raises
  \<open>AttributeError\<close>: the arrays before the call of \<open>zeros\<close> are computed without an
  exception, and the class has no \<open>zeros\<close>.
\<close>

lemma parallelTransport_raises: "parallelTransport self upv invert = Inl AttributeError"
proof -
  obtain binorms angles0 quats where
    "VectorNArray_cross (tl (adjacent_differences self)) (butlast (adjacent_differences self)) = Inr binorms"
    "VectorNArray_angle (tl (adjacent_differences self)) (butlast (adjacent_differences self)) = Inr angles0"
    "axisAngle_rows (\<lambda>b a. map_option (axisAngle_row b) a) (arrayCompat binorms)
       (if invert then map (map_option uminus) angles0 else angles0) = Inr quats"
    by (rule transport_quats)
  then show ?thesis
    by (simp add: parallelTransport_def parallelTransport_with_def Vector3Array_zeros_def Let_def)
qed

lemma vectorquatproduct_single: "\<exists>r. vectorquatproduct [x] [y] = Inr [r]"
  by (simp add: vectorquatproduct_def arrayCompat_def broadcast_rows_def scale_last_axis_def)

lemma transport_rotate_total: "\<exists>v. transport_rotate a b = Inr v"
proof -
  have "\<exists>r. VectorN_mul_Quaternion 3 x y = Inr r" for x y
  proof -
    obtain r where "vectorquatproduct [x] [y] = Inr [r]"
      using vectorquatproduct_single by blast
    then show ?thesis
      by (simp add: VectorN_mul_Quaternion_def VectorN_asVectorSize_def)
  qed
  then have r: "\<exists>r. VectorN_mul_Quaternion 3 x y = Inr r" for x y by blast
  show ?thesis
  proof (cases a)
    case None
    then show ?thesis by (simp add: transport_rotate_def)
  next
    case (Some x)
    show ?thesis
    proof (cases b)
      case None
      then show ?thesis using Some by (simp add: transport_rotate_def)
    next
      case (Some y)
      obtain r where "VectorN_mul_Quaternion 3 x y = Inr r" using r by blast
      then show ?thesis using Some \<open>a = Some x\<close> by (simp add: transport_rotate_def)
    qed
  qed
qed

lemma transport_loop_runs_out:
  assumes "k \<le> length quats" and "length quats < m" and "m < length out"
  shows "transport_loop quats [k..<m] out = Inl IndexError"
  using assms
proof (induction "length quats - k" arbitrary: k out)
  case 0
  then have k: "k = length quats" by simp
  then have "[k..<m] = k # [Suc k..<m]" using "0.prems" by (simp add: upt_conv_Cons)
  then show ?case using k "0.prems" by simp
next
  case (Suc d)
  then have k: "k < length quats" by simp
  then have u: "[k..<m] = k # [Suc k..<m]" using Suc.prems by (simp add: upt_conv_Cons)
  obtain v where v: "transport_rotate (out ! k) (quats ! k) = Inr v"
    using transport_rotate_total by blast
  have "transport_loop quats [Suc k..<m] (out[Suc k := v]) = Inl IndexError"
    using Suc.hyps(2) Suc.prems k by (intro Suc.hyps(1)) auto
  then show ?case using u v k Suc.prems by simp
qed

text \<open>
  With a constructor \<open>zeros\<close> in place the function still returns nothing: there is
  one quaternion for every inner point, \<open>len(self) - 2\<close> in all, and the loop reads
  \<open>quats[i]\<close> for \<open>i\<close> up to \<open>len(self) - 2\<close>. For fewer than two points it is
  \<open>out[0]\<close> or \<open>out[-2]\<close> that does not exist.
\<close>

lemma parallelTransport_with_zeros_raises:
  "parallelTransport_with (Some zeros_as_QuaternionArray) self upv invert = Inl IndexError"
proof -
  obtain binorms angles0 quats where q:
    "VectorNArray_cross (tl (adjacent_differences self)) (butlast (adjacent_differences self)) = Inr binorms"
    "VectorNArray_angle (tl (adjacent_differences self)) (butlast (adjacent_differences self)) = Inr angles0"
    "axisAngle_rows (\<lambda>b a. map_option (axisAngle_row b) a) (arrayCompat binorms)
       (if invert then map (map_option uminus) angles0 else angles0) = Inr quats"
    and l: "length quats = length self - 2"
    by (rule transport_quats)
  let ?out = "(map Some (zeros_as_QuaternionArray (length self)))[0 := Some upv]"
  have lo: "length ?out = length self" by (simp add: zeros_as_QuaternionArray_def)
  consider (short) "length self = 0" | (one) "length self = 1" | (long) "2 \<le> length self"
    by linarith
  then show ?thesis
  proof cases
    case short
    then show ?thesis using q
      by (simp add: parallelTransport_with_def Let_def zeros_as_QuaternionArray_def)
  next
    case one
    then show ?thesis using q
      by (simp add: parallelTransport_with_def Let_def zeros_as_QuaternionArray_def)
  next
    case long
    have "transport_loop quats [0..<length self - 1] ?out = Inl IndexError"
      using long l lo by (intro transport_loop_runs_out) auto
    then show ?thesis using q long
      by (simp add: parallelTransport_with_def Let_def zeros_as_QuaternionArray_def)
  qed
qed

lemma adjacentLengths_precondition:
  "adjacentLengths self = Inl ValueError \<longleftrightarrow> length self < 2"
  by (simp add: adjacentLengths_def)

text \<open>The scenario of the spec for \<open>adjacentLengths\<close>.\<close>

lemma adjacentLengths_example:
  "adjacentLengths [[0, 0, 0], [1, 0, 0], [1, 1, 0]] = Inr [1, 1]"
  by (simp add: adjacentLengths_def adjacent_differences_def VectorNArray_length_def
      VectorNArray_lengthSquared_def row_sub_def row_dot_def)

text \<open>
  Claim C3. On a polyline whose points lie on one straight line, \<open>parallelTransport\<close>
  should return the initial up-vector at every point. On the three points
  \<open>(0,0,0)\<close>, \<open>(1,0,0)\<close>, \<open>(2,0,0)\<close> with the up-vector \<open>(0,1,0)\<close> it returns
  nothing: it raises \<open>AttributeError\<close>, and with \<open>zeros\<close> supplied \<open>IndexError\<close>.
\<close>

theorem parallelTransport_straight_line_raises:
  "parallelTransport [[0, 0, 0], [1, 0, 0], [2, 0, 0]] [0, 1, 0] False = Inl AttributeError \<and>
   parallelTransport_with (Some zeros_as_QuaternionArray)
     [[0, 0, 0], [1, 0, 0], [2, 0, 0]] [0, 1, 0] False = Inl IndexError"
  by (simp add: parallelTransport_raises parallelTransport_with_zeros_raises)

text \<open>
  Claim C7. On fewer than two points \<open>adjacentLengths\<close> raises the precondition
  error, a \<open>ValueError\<close>, before anything else. \<open>parallelTransport\<close> has no such
  check: on one point it raises \<open>AttributeError\<close> as on every input, and with
  \<open>zeros\<close> supplied the \<open>IndexError\<close> of reading \<open>out[-2]\<close>.
\<close>

theorem parallelTransport_one_point_raises:
  "parallelTransport [[0, 0, 0]] [0, 1, 0] False = Inl AttributeError \<and>
   parallelTransport_with (Some zeros_as_QuaternionArray) [[0, 0, 0]] [0, 1, 0] False
     = Inl IndexError \<and>
   adjacentLengths [[0, 0, 0]] = Inl ValueError"
  by (simp add: parallelTransport_raises parallelTransport_with_zeros_raises
      adjacentLengths_precondition)

subsection \<open>Operations that look like mutation\<close>

lemma length_np_resize: "length (np_resize a m) = m"
proof (cases "a = []")
  case True
  then show ?thesis by (simp add: np_resize_def)
next
  case False
  then have "1 \<le> length a" by (cases a) auto
  then have "m \<le> m * length a" by simp
  then show ?thesis using False
    by (simp add: np_resize_def length_concat sum_list_replicate)
qed

lemma take_np_resize: "take (length a) (np_resize a (length a + k)) = a"
proof (cases "a = []")
  case True
  then show ?thesis by simp
next
  case False
  then obtain j where j: "length a + k = Suc j" by (cases a) auto
  then have le: "length a \<le> Suc j" by simp
  have "take (length a) (take (Suc j) (a @ concat (replicate j a))) = a"
    using le by (simp add: take_take min_def)
  then show ?thesis using False unfolding np_resize_def j by simp
qed

lemma np_resize_split:
  "np_resize a (length a + k) = a @ drop (length a) (np_resize a (length a + k))"
  using take_np_resize [of a k] append_take_drop_id [of "length a" "np_resize a (length a + k)"]
  by simp

lemma np_resize_last_row:
  "(np_resize a (length a + 1))[length (np_resize a (length a + 1)) - 1 := v] = a @ [v]"
proof -
  let ?ret = "np_resize a (length a + 1)"
  have l: "length ?ret = length a + 1" by (rule length_np_resize)
  define d where "d = drop (length a) ?ret"
  have "length d = Suc 0" using l by (simp add: d_def)
  then obtain x where "d = [x]" by (cases d) auto
  then have "drop (length a) ?ret = [x]" by (simp add: d_def)
  then have r: "?ret = a @ [x]" using np_resize_split [of a 1] by simp
  show ?thesis unfolding l by (subst r) simp
qed

lemma np_resize_front:
  "take (length (np_resize a (length a + k)) - k) (np_resize a (length a + k)) = a"
  by (simp add: length_np_resize take_np_resize)

lemma QuaternionArray_appended_frame:
  "(\<exists>e. QuaternionArray_appended h self value = (Inl e, h)) \<or>
   (\<exists>x. QuaternionArray_appended h self value = (Inr (Some (length h)), h @ [x]))"
  by (simp add: QuaternionArray_appended_def Let_def new_object_def split: sum.splits)

lemma QuaternionArray_extended_frame:
  "(\<exists>e. QuaternionArray_extended h self value = (Inl e, h)) \<or>
   (\<exists>x. QuaternionArray_extended h self value = (Inr (Some (length h)), h @ [x]))"
  by (simp add: QuaternionArray_extended_def Let_def new_object_def split: sum.splits)

lemma call_asVectorSize_frame:
  "(\<exists>e. call_asVectorSize h self n pad = (Inl e, h)) \<or>
   (\<exists>x. call_asVectorSize h self n pad = (Inr (Some (length h)), h @ [x]))"
  by (simp add: call_asVectorSize_def new_object_def split: sum.splits cls.splits)

lemma call_method_frame:
  assumes "c \<noteq> Normalize" and "\<forall>v. c \<noteq> Append v" and "\<forall>v. c \<noteq> Extend v"
  shows "(\<exists>e. call_method resizable h self c = (Inl e, h)) \<or>
         (\<exists>x. call_method resizable h self c = (Inr (Some (length h)), h @ [x]))"
proof (cases "has_method (obj_class (h ! self)) c")
  case False
  then show ?thesis by (simp add: call_method_def)
next
  case True
  show ?thesis
  proof (cases c)
    case Normal
    then show ?thesis using True by (simp add: call_method_def call_normal_def new_object_def)
  next
    case Normalize
    then show ?thesis using assms by simp
  next
    case (AsVectorSize n pad)
    then show ?thesis using True call_asVectorSize_frame [of h self n pad]
      by (simp add: call_method_def)
  next
    case (Appended v)
    then show ?thesis using True QuaternionArray_appended_frame [of h self v]
      by (simp add: call_method_def)
  next
    case (Extended v)
    then show ?thesis using True QuaternionArray_extended_frame [of h self v]
      by (simp add: call_method_def)
  next
    case (Append v)
    then show ?thesis using assms by simp
  next
    case (Extend v)
    then show ?thesis using assms by simp
  qed
qed

lemma appended_value:
  assumes "obj_class (h ! self) = QuaternionArrayC" and "length value = 4"
  shows "call_method resizable h self (Appended value) =
    (Inr (Some (length h)), h @ [(h ! self)\<lparr>obj_rows := obj_rows (h ! self) @ [value]\<rparr>])"
  using assms
  by (simp add: call_method_def QuaternionArray_appended_def Let_def fit_row_def new_object_def
      np_resize_last_row [simplified])

lemma fit_rows_same: "list_all (\<lambda>r. length r = w) v \<Longrightarrow> fit_rows w v = Inr v"
  by (simp add: fit_rows_def)

lemma extended_value:
  assumes "obj_class (h ! self) = QuaternionArrayC" and "obj_class (h ! arg) = QuaternionArrayC"
    and "obj_rows (h ! arg) \<noteq> []" and "list_all (\<lambda>r. length r = 4) (obj_rows (h ! arg))"
  shows "call_method resizable h self (Extended arg) =
    (Inr (Some (length h)),
     h @ [(h ! self)\<lparr>obj_rows := obj_rows (h ! self) @ obj_rows (h ! arg)\<rparr>])"
  using assms
  by (simp add: call_method_def QuaternionArray_extended_def Let_def new_object_def
      rows_assigned_def len_obj_def fit_rows_same np_resize_front)

lemma in_place_no_new_value:
  assumes "c = Normalize \<or> c = Append v \<or> c = Extend vs"
  shows "fst (call_method resizable h self c) \<noteq> Inr (Some a)"
  using assms
  by (auto simp: call_method_def call_normalize_def VectorNArray_append_def
      VectorNArray_extend_def Let_def split: sum.splits if_splits)

lemma append_in_place:
  assumes "fst (call_method resizable h self (Append v)) = Inr None"
  shows "\<exists>w. fit_row (components (obj_class (h ! self))) v = Inr w \<and>
    snd (call_method resizable h self (Append v)) =
      h[self := (h ! self)\<lparr>obj_rows := obj_rows (h ! self) @ [w]\<rparr>]"
  using assms
  by (auto simp: call_method_def VectorNArray_append_def Let_def split: sum.splits if_splits)

lemma extend_in_place:
  assumes "fst (call_method resizable h self (Extend vs)) = Inr None"
  shows "\<exists>w. fit_rows (components (obj_class (h ! self))) vs = Inr w \<and>
    snd (call_method resizable h self (Extend vs)) =
      h[self := (h ! self)\<lparr>obj_rows := obj_rows (h ! self) @ w\<rparr>]"
  using assms
  by (auto simp: call_method_def VectorNArray_extend_def Let_def split: sum.splits if_splits)


text \<open>
  Claim C8, as amended. Apart from the in-place \<open>normalize\<close>, \<open>append\<close> and
  \<open>extend\<close>, a call of one of the operations that look like mutation (\<open>normal\<close>,
  \<open>asVectorSize\<close>, \<open>appended\<close>, \<open>extended\<close>) on a vector, a vector array, a
  quaternion or a quaternion array either raises and leaves the store as it was, or
  returns a new object: its reference is none of the store before the call, and every
  object of that store, the receiver and the argument among them, is as it was. In
  particular \<open>appended\<close> and \<open>extended\<close> on a quaternion array return the rows of
  the receiver followed by the value. \<open>normalize\<close>, \<open>append\<close> and \<open>extend\<close> never
  return a new object; an \<open>append\<close> or \<open>extend\<close> that returns has put the new rows
  at the end of the receiver itself.
\<close>

theorem mutating_looking_calls:
  assumes "self < length h" and "arg < length h"
  shows "(c \<noteq> Normalize \<longrightarrow> (\<forall>u. c \<noteq> Append u) \<longrightarrow> (\<forall>u. c \<noteq> Extend u) \<longrightarrow>
            (\<exists>e. call_method resizable h self c = (Inl e, h)) \<or>
            (\<exists>x. call_method resizable h self c = (Inr (Some (length h)), h @ [x]))) \<and>
         length h \<noteq> self \<and> length h \<noteq> arg \<and>
         (\<forall>x a. a < length h \<longrightarrow> (h @ [x]) ! a = h ! a) \<and>
         (obj_class (h ! self) = QuaternionArrayC \<longrightarrow> length value = 4 \<longrightarrow>
            call_method resizable h self (Appended value) =
              (Inr (Some (length h)),
               h @ [(h ! self)\<lparr>obj_rows := obj_rows (h ! self) @ [value]\<rparr>])) \<and>
         (obj_class (h ! self) = QuaternionArrayC \<longrightarrow> obj_class (h ! arg) = QuaternionArrayC \<longrightarrow>
          obj_rows (h ! arg) \<noteq> [] \<longrightarrow> list_all (\<lambda>r. length r = 4) (obj_rows (h ! arg)) \<longrightarrow>
            call_method resizable h self (Extended arg) =
              (Inr (Some (length h)),
               h @ [(h ! self)\<lparr>obj_rows := obj_rows (h ! self) @ obj_rows (h ! arg)\<rparr>])) \<and>
         (c = Normalize \<or> c = Append v \<or> c = Extend vs \<longrightarrow>
            (\<forall>a. fst (call_method resizable h self c) \<noteq> Inr (Some a))) \<and>
         (fst (call_method resizable h self (Append v)) = Inr None \<longrightarrow>
            (\<exists>w. fit_row (components (obj_class (h ! self))) v = Inr w \<and>
                 snd (call_method resizable h self (Append v)) =
                   h[self := (h ! self)\<lparr>obj_rows := obj_rows (h ! self) @ [w]\<rparr>])) \<and>
         (fst (call_method resizable h self (Extend vs)) = Inr None \<longrightarrow>
            (\<exists>w. fit_rows (components (obj_class (h ! self))) vs = Inr w \<and>
                 snd (call_method resizable h self (Extend vs)) =
                   h[self := (h ! self)\<lparr>obj_rows := obj_rows (h ! self) @ w\<rparr>]))"
proof (intro conjI impI allI)
  fix x a
  assume "a < length h"
  then show "(h @ [x]) ! a = h ! a" by (simp add: nth_append)
next
  show "length h \<noteq> self" "length h \<noteq> arg" using assms by simp_all
next
  assume "c \<noteq> Normalize" "\<forall>u. c \<noteq> Append u" "\<forall>u. c \<noteq> Extend u"
  then show "(\<exists>e. call_method resizable h self c = (Inl e, h)) \<or>
            (\<exists>x. call_method resizable h self c = (Inr (Some (length h)), h @ [x]))"
    by (rule call_method_frame)
next
  assume "obj_class (h ! self) = QuaternionArrayC" "length value = 4"
  then show "call_method resizable h self (Appended value) =
              (Inr (Some (length h)),
               h @ [(h ! self)\<lparr>obj_rows := obj_rows (h ! self) @ [value]\<rparr>])"
    by (rule appended_value)
next
  assume "obj_class (h ! self) = QuaternionArrayC" "obj_class (h ! arg) = QuaternionArrayC"
    "obj_rows (h ! arg) \<noteq> []" "list_all (\<lambda>r. length r = 4) (obj_rows (h ! arg))"
  then show "call_method resizable h self (Extended arg) =
              (Inr (Some (length h)),
               h @ [(h ! self)\<lparr>obj_rows := obj_rows (h ! self) @ obj_rows (h ! arg)\<rparr>])"
    by (rule extended_value)
next
  fix a
  assume "c = Normalize \<or> c = Append v \<or> c = Extend vs"
  then show "fst (call_method resizable h self c) \<noteq> Inr (Some a)"
    by (rule in_place_no_new_value)
next
  assume "fst (call_method resizable h self (Append v)) = Inr None"
  then show "\<exists>w. fit_row (components (obj_class (h ! self))) v = Inr w \<and>
                 snd (call_method resizable h self (Append v)) =
                   h[self := (h ! self)\<lparr>obj_rows := obj_rows (h ! self) @ [w]\<rparr>]"
    by (rule append_in_place)
next
  assume "fst (call_method resizable h self (Extend vs)) = Inr None"
  then show "\<exists>w. fit_rows (components (obj_class (h ! self))) vs = Inr w \<and>
                 snd (call_method resizable h self (Extend vs)) =
                   h[self := (h ! self)\<lparr>obj_rows := obj_rows (h ! self) @ w\<rparr>]"
    by (rule extend_in_place)
qed

text \<open>
  The theorem on a store of a quaternion array (reference 0) and a vector array
  (reference 1).
\<close>

theorem mutating_looking_calls_witness:
  "call_method True
     [\<lparr>obj_class = QuaternionArrayC, obj_rows = [[Some 0, Some 0, Some 0, Some 1]]\<rparr>,
      \<lparr>obj_class = VectorArrayC 3, obj_rows = [[Some 1, Some 2, Some 3]]\<rparr>]
     0 (Appended [Some 1, Some 0, Some 0, Some 0]) =
   (Inr (Some 2),
    [\<lparr>obj_class = QuaternionArrayC, obj_rows = [[Some 0, Some 0, Some 0, Some 1]]\<rparr>,
     \<lparr>obj_class = VectorArrayC 3, obj_rows = [[Some 1, Some 2, Some 3]]\<rparr>,
     \<lparr>obj_class = QuaternionArrayC,
      obj_rows = [[Some 0, Some 0, Some 0, Some 1], [Some 1, Some 0, Some 0, Some 0]]\<rparr>]) \<and>
   call_method True
     [\<lparr>obj_class = QuaternionArrayC, obj_rows = [[Some 0, Some 0, Some 0, Some 1]]\<rparr>,
      \<lparr>obj_class = VectorArrayC 3, obj_rows = [[Some 1, Some 2, Some 3]]\<rparr>]
     0 (Extended 0) =
   (Inr (Some 2),
    [\<lparr>obj_class = QuaternionArrayC, obj_rows = [[Some 0, Some 0, Some 0, Some 1]]\<rparr>,
     \<lparr>obj_class = VectorArrayC 3, obj_rows = [[Some 1, Some 2, Some 3]]\<rparr>,
     \<lparr>obj_class = QuaternionArrayC,
      obj_rows = [[Some 0, Some 0, Some 0, Some 1], [Some 0, Some 0, Some 0, Some 1]]\<rparr>])"
proof -
  let ?h = "[\<lparr>obj_class = QuaternionArrayC, obj_rows = [[Some 0, Some 0, Some 0, Some 1]]\<rparr>,
      \<lparr>obj_class = VectorArrayC 3, obj_rows = [[Some (1::real), Some 2, Some 3]]\<rparr>]"
  have h: "(0::nat) < length ?h" by simp
  from mutating_looking_calls [OF h h, of Normal True "[Some 1, Some 0, Some 0, Some 0]"]
  show ?thesis by simp
qed

text \<open>
  Claim C8 as stated fails for \<open>append\<close>: on the vector array \<open>[[1,2,3]]\<close> the call
  \<open>append([4,5,6])\<close> returns \<open>None\<close>, no new value, and leaves the receiver with
  two rows; where the buffer cannot be resized the call raises, and there is no new
  value either.
\<close>

theorem VectorNArray_append_changes_receiver:
  "call_method True [\<lparr>obj_class = VectorArrayC 3, obj_rows = [[Some 1, Some 2, Some 3]]\<rparr>] 0
     (Append [Some 4, Some 5, Some 6]) =
   (Inr None,
    [\<lparr>obj_class = VectorArrayC 3,
      obj_rows = [[Some 1, Some 2, Some 3], [Some 4, Some 5, Some 6]]\<rparr>]) \<and>
   call_method False [\<lparr>obj_class = VectorArrayC 3, obj_rows = [[Some 1, Some 2, Some 3]]\<rparr>] 0
     (Append [Some 4, Some 5, Some 6]) =
   (Inl ValueError, [\<lparr>obj_class = VectorArrayC 3, obj_rows = [[Some 1, Some 2, Some 3]]\<rparr>])"
  by (simp add: call_method_def VectorNArray_append_def fit_row_def)

end
